theory Spec2Isabelle
  imports Complex_Main "HOL-Library.Char_ord" "HOL-Library.List_Lexorder"
begin

section \<open>Python string primitives used by the G-code parser\<close>

text \<open>
  The source is Python 2: a \<open>str\<close> is a byte string, modelled as \<open>string\<close>.
  \<open>str.strip()\<close> removes the six ASCII whitespace bytes, \<open>str.upper()\<close> maps
  \<open>a..z\<close> to \<open>A..Z\<close> (the C locale).
\<close>

definition is_space :: "char \<Rightarrow> bool" where
  "is_space c = (c \<in> set [CHR 0x20, CHR 0x09, CHR 0x0A, CHR 0x0B, CHR 0x0C, CHR 0x0D])"

definition lstrip :: "string \<Rightarrow> string" where
  "lstrip s = dropWhile is_space s"

definition rstrip :: "string \<Rightarrow> string" where
  "rstrip s = rev (dropWhile is_space (rev s))"

definition strip :: "string \<Rightarrow> string" where
  "strip s = rstrip (lstrip s)"

definition upper_char :: "char \<Rightarrow> char" where
  "upper_char c =
     (case map_of (zip ''abcdefghijklmnopqrstuvwxyz'' ''ABCDEFGHIJKLMNOPQRSTUVWXYZ'') c of
        Some u \<Rightarrow> u
      | None \<Rightarrow> c)"

definition upper :: "string \<Rightarrow> string" where
  "upper s = map upper_char s"

text \<open>\<open>s.split(c)\<close> for a one-character separator: never the empty list.\<close>

fun split_on :: "char \<Rightarrow> string \<Rightarrow> string list" where
  "split_on c [] = [[]]"
| "split_on c (x # xs) =
     (if x = c then [] # split_on c xs
      else (case split_on c xs of [] \<Rightarrow> [[x]] | w # ws \<Rightarrow> (x # w) # ws))"

text \<open>\<open>sep.join(xs)\<close>.\<close>

fun join :: "string \<Rightarrow> string list \<Rightarrow> string" where
  "join sep [] = []"
| "join sep [x] = x"
| "join sep (x # y # ys) = x @ sep @ join sep (y # ys)"

text \<open>\<open>s.split()\<close>: the maximal runs of non-whitespace bytes.\<close>

fun words_acc :: "string \<Rightarrow> string \<Rightarrow> string list" where
  "words_acc acc [] = (if acc = [] then [] else [rev acc])"
| "words_acc acc (x # xs) =
     (if is_space x then (if acc = [] then words_acc [] xs else rev acc # words_acc [] xs)
      else words_acc (x # acc) xs)"

definition split_ws :: "string \<Rightarrow> string list" where
  "split_ws s = words_acc [] s"

definition nl :: char where
  "nl = CHR 0x0A"

definition quote :: string where
  "quote = [CHR 0x27]"

definition dquote :: string where
  "dquote = [CHR 0x22]"

section \<open>Exceptions, collaborators and the parser object\<close>

text \<open>
  \<open>Gcode_error\<close> is the module's own \<open>class error(Exception)\<close>; \<open>EndstopError\<close> is
  \<open>homing.EndstopError\<close>, \<open>Heater_error\<close> is \<open>heater.error\<close>; the others are Python's
  built-in exceptions and anything else a collaborator may raise.
\<close>

datatype exn =
    Gcode_error string
  | EndstopError string
  | Heater_error string
  | ValueError
  | KeyError string
  | IndexError
  | AttributeError
  | Other_exception string

text \<open>
  Every call that leaves the object is recorded, in order, in a trace: writes to the
  file descriptor and calls into the toolhead, the heaters, the fan, the servos, the
  reactor and the printer. Heaters are named by a number, extruders by their index in
  the printer's extruder list, servos by their configured name.
\<close>

datatype event =
    Write string
  | Th_move "real list" real
  | Th_dwell real
  | Th_home "nat list" bool
  | Th_motor_off
  | Th_get_position
  | Th_get_last_move_time
  | Th_wait_moves
  | Th_query_endstops
  | Th_set_extruder nat
  | Th_force_shutdown
  | Heater_get_temp nat
  | Heater_set_temp nat real real
  | Heater_check_busy nat real
  | Heater_start_auto_tune nat real
  | Fan_set_speed real real
  | Servo_set_pulse_width string real real
  | Servo_set_angle string real real
  | Get_state_message
  | Request_exit "string option"
  | Reactor_monotonic
  | Reactor_pause real
  | Reactor_register_fd
  | Reactor_unregister_fd

text \<open>An extruder object: its heater and its two activation macros.\<close>

record extruder_obj =
  e_heater :: nat
  e_activate_gcode :: string
  e_deactivate_gcode :: string

text \<open>
  The collaborators are not part of this module. What they answer is a parameter of the
  model: each answer is a function of the trace of calls made so far (the call being
  answered is its last element), so a collaborator may answer differently each time.
  \<open>env_raises\<close> tells whether the call raises, and what.
  \<open>env_fmt n x\<close> is Python's \<open>"%.nf" % x\<close>.
\<close>

record env =
  env_raises :: "event list \<Rightarrow> exn option"
  env_position :: "event list \<Rightarrow> real list"
  env_last_move_time :: "event list \<Rightarrow> real"
  env_endstops :: "event list \<Rightarrow> (string \<times> bool) list"
  env_temp :: "event list \<Rightarrow> real \<times> real"
  env_check_busy :: "event list \<Rightarrow> bool"
  env_state_message :: "event list \<Rightarrow> string"
  env_monotonic :: "event list \<Rightarrow> real"
  env_pause :: "event list \<Rightarrow> real"
  env_batch_done :: "event list \<Rightarrow> bool"
  env_toolhead :: bool
  env_heater_bed :: "nat option"
  env_fan :: bool
  env_extruders :: "extruder_obj list"
  env_servo :: "string \<Rightarrow> bool"
  env_software_version :: string
  env_fmt :: "nat \<Rightarrow> real \<Rightarrow> string"

text \<open>The names of the handler methods \<open>cmd_*\<close>.\<close>

datatype handler =
    G1 | G4 | G20 | G28 | G90 | G91 | G92
  | M82 | M83 | M18 | M105 | M104 | M109 | M112 | M114 | M115
  | M140 | M190 | M106 | M107 | M206 | M400
  | IGNORE | QUERY_ENDSTOPS | PID_TUNE | SET_SERVO
  | RESTART | FIRMWARE_RESTART | ECHO | STATUS | HELP

text \<open>
  The fields of \<open>GCodeParser\<close>. \<open>toolhead\<close> and \<open>fan\<close> say whether the reference is
  set (not \<open>None\<close>); \<open>extruder\<close> is the active extruder with its index in the
  printer's list (two references are the same object when the indices are equal); a
  heater that is \<open>None\<close> is \<open>None\<close> in \<open>heaters\<close>; the dictionary \<open>gcode_handlers\<close> is
  an association list. \<open>fd_handle\<close> says whether the read callback is registered.
  Floats are modelled as reals: rounding is outside the model. The debugging log
  \<open>input_log\<close> and the calls to \<open>logging\<close> are left out.
\<close>

type_synonym params = "string \<rightharpoonup> string"

record gstate =
  is_processing_data :: bool
  is_fileinput :: bool
  fd_handle :: bool
  partial_input :: string
  bytes_read :: nat
  gcode_handlers :: "(string \<times> handler) list"
  is_printer_ready :: bool
  need_ack :: bool
  toolhead :: bool
  fan :: bool
  extruder :: "(nat \<times> extruder_obj) option"
  heaters :: "nat option list"
  speed :: real
  absolutecoord :: bool
  absoluteextrude :: bool
  base_position :: "real list"
  last_position :: "real list"
  homing_add :: "real list"
  trace :: "event list"

subsection \<open>Actions: state passing with exceptions\<close>

text \<open>
  A method is a function from the object's state to an outcome and the state it leaves:
  \<open>Inl e\<close> when it raises \<open>e\<close> (the state keeps what was assigned before the raise),
  \<open>Inr x\<close> when it returns \<open>x\<close>.
\<close>

type_synonym 'a act = "gstate \<Rightarrow> (exn + 'a) \<times> gstate"

definition ret :: "'a \<Rightarrow> 'a act" where
  "ret x = (\<lambda>s. (Inr x, s))"

definition raise :: "exn \<Rightarrow> 'a act" where
  "raise e = (\<lambda>s. (Inl e, s))"

definition bnd :: "'a act \<Rightarrow> ('a \<Rightarrow> 'b act) \<Rightarrow> 'b act" where
  "bnd m f = (\<lambda>s. case m s of (Inl e, s') \<Rightarrow> (Inl e, s') | (Inr x, s') \<Rightarrow> f x s')"

definition seq :: "unit act \<Rightarrow> 'b act \<Rightarrow> 'b act" where
  "seq m k = bnd m (\<lambda>_. k)"

definition modify :: "(gstate \<Rightarrow> gstate) \<Rightarrow> unit act" where
  "modify f = (\<lambda>s. (Inr (), f s))"

text \<open>A call into a collaborator: recorded, then it returns or raises.\<close>

definition call :: "env \<Rightarrow> event \<Rightarrow> unit act" where
  "call ev e = (\<lambda>s.
     let t = trace s @ [e] in
     (case env_raises ev t of Some x \<Rightarrow> Inl x | None \<Rightarrow> Inr (), s\<lparr>trace := t\<rparr>))"

text \<open>
  Writes to the file descriptor and calls into the reactor are recorded and taken to
  succeed.
\<close>

definition emit :: "event \<Rightarrow> unit act" where
  "emit e = modify (\<lambda>s. s\<lparr>trace := trace s @ [e]\<rparr>)"

definition lift :: "exn + 'a \<Rightarrow> 'a act" where
  "lift r = (\<lambda>s. (r, s))"

text \<open>A \<open>for\<close> loop over a list: it stops at the first iteration that raises.\<close>

fun for_each :: "'a list \<Rightarrow> ('a \<Rightarrow> unit act) \<Rightarrow> unit act" where
  "for_each [] f = (\<lambda>s. (Inr (), s))"
| "for_each (x # xs) f =
     (\<lambda>s. case f x s of (Inl e, s') \<Rightarrow> (Inl e, s') | (Inr _, s') \<Rightarrow> for_each xs f s')"

text \<open>A method call on \<open>self.toolhead\<close>: an \<open>AttributeError\<close> while it is \<open>None\<close>.\<close>

definition th_call :: "env \<Rightarrow> event \<Rightarrow> unit act" where
  "th_call ev e = (\<lambda>s. if toolhead s then call ev e s else (Inl AttributeError, s))"

definition th_get_position :: "env \<Rightarrow> (real list) act" where
  "th_get_position ev =
     bnd (th_call ev Th_get_position) (\<lambda>_ s. (Inr (env_position ev (trace s)), s))"

definition th_get_last_move_time :: "env \<Rightarrow> real act" where
  "th_get_last_move_time ev =
     bnd (th_call ev Th_get_last_move_time) (\<lambda>_ s. (Inr (env_last_move_time ev (trace s)), s))"

section \<open>Response handling\<close>

definition ack :: "env \<Rightarrow> string option \<Rightarrow> unit act" where
  "ack ev msg = (\<lambda>s.
     if \<not> need_ack s \<or> is_fileinput s then (Inr (), s)
     else seq (case msg of
                 None \<Rightarrow> emit (Write (''ok'' @ [nl]))
               | Some m \<Rightarrow> if m = [] then emit (Write (''ok'' @ [nl]))
                           else emit (Write (''ok '' @ m @ [nl])))
              (modify (\<lambda>s. s\<lparr>need_ack := False\<rparr>)) s)"

definition respond :: "env \<Rightarrow> string \<Rightarrow> unit act" where
  "respond ev msg = (\<lambda>s.
     if is_fileinput s then (Inr (), s) else emit (Write (msg @ [nl])) s)"

definition respond_info :: "env \<Rightarrow> string \<Rightarrow> unit act" where
  "respond_info ev msg =
     (let lines = map strip (split_on nl (strip msg))
      in respond ev (''// '' @ join ([nl] @ ''// '') lines))"

definition respond_error :: "env \<Rightarrow> string \<Rightarrow> unit act" where
  "respond_error ev msg =
     (let lines = split_on nl (strip msg)
      in seq (if length lines > 1 then respond_info ev (join [nl] (butlast lines)) else ret ())
             (respond ev (''!! '' @ strip (last lines))))"

section \<open>Parameter parsing helpers\<close>

text \<open>
  Python's \<open>int(s)\<close> and \<open>float(s)\<close> on a byte string: surrounding whitespace is
  ignored, then an optional sign and decimal digits; \<open>float\<close> also takes a decimal point
  and a decimal exponent. \<open>None\<close> is the \<open>ValueError\<close>. The spellings of infinity and
  not-a-number, which \<open>float\<close> also accepts, have no value among the reals and are
  rejected here; the tokenizer of \<open>process_commands\<close> removes every letter from a value,
  so they can reach \<open>float\<close> only through an extended parameter.
\<close>

definition is_digit :: "char \<Rightarrow> bool" where
  "is_digit c = (c \<in> set ''0123456789'')"

definition digit_val :: "char \<Rightarrow> nat" where
  "digit_val c = length (takeWhile (\<lambda>d. d \<noteq> c) ''0123456789'')"

definition nat_of_digits :: "string \<Rightarrow> nat" where
  "nat_of_digits ds = foldl (\<lambda>n c. 10 * n + digit_val c) 0 ds"

definition split_sign :: "string \<Rightarrow> bool \<times> string" where
  "split_sign s =
     (case s of
        [] \<Rightarrow> (False, [])
      | c # r \<Rightarrow> if c = CHR ''-'' then (True, r) else if c = CHR ''+'' then (False, r) else (False, s))"

definition py_int :: "string \<Rightarrow> int option" where
  "py_int s =
     (let (neg, ds) = split_sign (strip s)
      in if ds \<noteq> [] \<and> list_all is_digit ds
         then Some (if neg then - int (nat_of_digits ds) else int (nat_of_digits ds))
         else None)"

definition mantissa :: "string \<Rightarrow> real option" where
  "mantissa m =
     (let ip = takeWhile is_digit m; rest = dropWhile is_digit m
      in case rest of
           [] \<Rightarrow> if ip = [] then None else Some (real (nat_of_digits ip))
         | c # fp \<Rightarrow>
             if c = CHR ''.'' \<and> list_all is_digit fp \<and> (ip \<noteq> [] \<or> fp \<noteq> [])
             then Some (real (nat_of_digits ip) + real (nat_of_digits fp) / 10 ^ length fp)
             else None)"

definition is_exp_mark :: "char \<Rightarrow> bool" where
  "is_exp_mark c = (c = CHR ''e'' \<or> c = CHR ''E'')"

definition py_float :: "string \<Rightarrow> real option" where
  "py_float s =
     (let (neg, u) = split_sign (strip s);
          m = takeWhile (\<lambda>c. \<not> is_exp_mark c) u;
          ex = dropWhile (\<lambda>c. \<not> is_exp_mark c) u
      in case mantissa m of
           None \<Rightarrow> None
         | Some x \<Rightarrow>
            (case ex of
               [] \<Rightarrow> Some (if neg then - x else x)
             | _ # e \<Rightarrow>
                (let (eneg, ds) = split_sign e
                 in if ds \<noteq> [] \<and> list_all is_digit ds
                    then (let y = (if eneg then x / 10 ^ nat_of_digits ds
                                   else x * 10 ^ nat_of_digits ds)
                          in Some (if neg then - y else y))
                    else None)))"

text \<open>\<open>"%d" % n\<close>.\<close>

fun show_nat :: "nat \<Rightarrow> string" where
  "show_nat n =
     (if n < 10 then [''0123456789'' ! n]
      else show_nat (n div 10) @ [''0123456789'' ! (n mod 10)])"

definition show_int :: "int \<Rightarrow> string" where
  "show_int i = (if i < 0 then ''-'' @ show_nat (nat (- i)) else show_nat (nat i))"

text \<open>
  \<open>get_int\<close> and \<open>get_float\<close> touch no field of the object, so they are functions to
  an exception or a value. \<open>params['#original']\<close> is a \<open>KeyError\<close> when the key is
  absent.
\<close>

definition parse_error :: "params \<Rightarrow> string \<Rightarrow> exn" where
  "parse_error params v =
     (case params ''#original'' of
        None \<Rightarrow> KeyError ''#original''
      | Some orig \<Rightarrow> Gcode_error (''Error on '' @ quote @ orig @ quote @ '': unable to parse '' @ v))"

definition missing_error :: "params \<Rightarrow> string \<Rightarrow> exn" where
  "missing_error params name =
     (case params ''#original'' of
        None \<Rightarrow> KeyError ''#original''
      | Some orig \<Rightarrow> Gcode_error (''Error on '' @ quote @ orig @ quote @ '': missing '' @ name))"

definition get_int :: "string \<Rightarrow> params \<Rightarrow> int option \<Rightarrow> exn + int" where
  "get_int name params dflt =
     (case params name of
        Some v \<Rightarrow> (case py_int v of Some i \<Rightarrow> Inr i | None \<Rightarrow> Inl (parse_error params v))
      | None \<Rightarrow> (case dflt of Some d \<Rightarrow> Inr d | None \<Rightarrow> Inl (missing_error params name)))"

definition get_float :: "string \<Rightarrow> params \<Rightarrow> real option \<Rightarrow> exn + real" where
  "get_float name params dflt =
     (case params name of
        Some v \<Rightarrow> (case py_float v of Some x \<Rightarrow> Inr x | None \<Rightarrow> Inl (parse_error params v))
      | None \<Rightarrow> (case dflt of Some d \<Rightarrow> Inr d | None \<Rightarrow> Inl (missing_error params name)))"

subsection \<open>Extended parameters\<close>

text \<open>
  \<open>extended_r.match(s)\<close>, giving the group \<open>args\<close>. The pattern is
  \<^verbatim>\<open>^\s*(?:N[0-9]+\s*)?(?P<cmd>[a-zA-Z_][a-zA-Z_]+)(?:\s+|$)(?P<args>[^#*;]*?)\s*(?:[#*;].*)?$\<close>.
  It has one way to match at most: the optional line number is an \<open>N\<close> followed by a
  digit, which no command word starts with; the command word is the whole run of letters
  and underscores, two at least, followed by whitespace or the end; the lazy group
  \<open>args\<close> is what follows up to the first of \<open>#\<close>, \<open>*\<close>, \<open>;\<close>, without its trailing
  whitespace; a comment, when there is one, must run to the end of the string, and
  \<open>.\<close> does not match a newline, but \<open>$\<close> matches before a newline that is the last
  character.
\<close>

definition is_alpha_us :: "char \<Rightarrow> bool" where
  "is_alpha_us c =
     (c \<in> set ''abcdefghijklmnopqrstuvwxyzABCDEFGHIJKLMNOPQRSTUVWXYZ_'')"

definition is_comment_mark :: "char \<Rightarrow> bool" where
  "is_comment_mark c = (c = CHR ''#'' \<or> c = CHR ''*'' \<or> c = CHR '';'')"

definition skip_line_number :: "string \<Rightarrow> string" where
  "skip_line_number s =
     (case s of
        [] \<Rightarrow> s
      | c # r \<Rightarrow> if c = CHR ''N'' \<and> takeWhile is_digit r \<noteq> []
                 then lstrip (dropWhile is_digit r) else s)"

definition comment_ok :: "string \<Rightarrow> bool" where
  "comment_ok tail =
     (case tail of
        [] \<Rightarrow> True
      | _ # body \<Rightarrow> nl \<notin> set body \<or> (body \<noteq> [] \<and> last body = nl \<and> nl \<notin> set (butlast body)))"

definition extended_match :: "string \<Rightarrow> (string \<times> string) option" where
  "extended_match s =
     (let s2 = skip_line_number (lstrip s);
          cmd = takeWhile is_alpha_us s2;
          rest = dropWhile is_alpha_us s2
      in if length cmd < 2 then None
         else if rest \<noteq> [] \<and> \<not> is_space (hd rest) then None
         else let body = lstrip rest;
                  pre = takeWhile (\<lambda>c. \<not> is_comment_mark c) body;
                  tail = dropWhile (\<lambda>c. \<not> is_comment_mark c) body
              in if comment_ok tail then Some (cmd, rstrip pre) else None)"

text \<open>\<open>earg.split('=', 1)\<close>, then the unpacking into \<open>k, v\<close>: a \<open>ValueError\<close>
  (\<open>None\<close>) when the token has no \<open>=\<close>.\<close>

definition split_eq :: "string \<Rightarrow> (string \<times> string) option" where
  "split_eq tok =
     (if CHR ''='' \<in> set tok
      then Some (takeWhile (\<lambda>c. c \<noteq> CHR ''='') tok, tl (dropWhile (\<lambda>c. c \<noteq> CHR ''='') tok))
      else None)"

fun eparams_of :: "params \<Rightarrow> string list \<Rightarrow> params option" where
  "eparams_of m [] = Some m"
| "eparams_of m (tok # toks) =
     (case split_eq tok of
        None \<Rightarrow> None
      | Some (k, v) \<Rightarrow> eparams_of (m(upper k \<mapsto> v)) toks)"

definition is_pseudo :: "string \<Rightarrow> bool" where
  "is_pseudo k = (k \<noteq> [] \<and> hd k = CHR ''#'')"

definition get_extended_params :: "params \<Rightarrow> exn + params" where
  "get_extended_params params =
     (case params ''#original'' of
        None \<Rightarrow> Inl (KeyError ''#original'')
      | Some orig \<Rightarrow>
         (case extended_match orig of
            None \<Rightarrow> Inr params
          | Some (cmd, eargs) \<Rightarrow>
             (case eparams_of Map.empty (split_ws eargs) of
                None \<Rightarrow> Inl (Gcode_error (''Malformed command '' @ quote @ orig @ quote))
              | Some eparams \<Rightarrow>
                  Inr (\<lambda>k. if is_pseudo k \<and> params k \<noteq> None then params k else eparams k))))"

section \<open>Coordinate handlers\<close>

text \<open>
  \<open>xs[i]\<close> on a Python list: a negative index counts from the end, an index out of
  range is an \<open>IndexError\<close>.
\<close>

definition py_index :: "'a list \<Rightarrow> int \<Rightarrow> exn + 'a" where
  "py_index xs i =
     (if 0 \<le> i \<and> i < int (length xs) then Inr (xs ! nat i)
      else if i < 0 \<and> - i \<le> int (length xs) then Inr (xs ! nat (int (length xs) + i))
      else Inl IndexError)"

definition get_at :: "(gstate \<Rightarrow> real list) \<Rightarrow> nat \<Rightarrow> real act" where
  "get_at f p = (\<lambda>s. if p < length (f s) then (Inr (f s ! p), s) else (Inl IndexError, s))"

definition set_last :: "nat \<Rightarrow> real \<Rightarrow> unit act" where
  "set_last p v = (\<lambda>s.
     if p < length (last_position s)
     then (Inr (), s\<lparr>last_position := (last_position s)[p := v]\<rparr>)
     else (Inl IndexError, s))"

definition set_base :: "nat \<Rightarrow> real \<Rightarrow> unit act" where
  "set_base p v = (\<lambda>s.
     if p < length (base_position s)
     then (Inr (), s\<lparr>base_position := (base_position s)[p := v]\<rparr>)
     else (Inl IndexError, s))"

definition set_homing :: "nat \<Rightarrow> real \<Rightarrow> unit act" where
  "set_homing p v = (\<lambda>s.
     if p < length (homing_add s)
     then (Inr (), s\<lparr>homing_add := (homing_add s)[p := v]\<rparr>)
     else (Inl IndexError, s))"

text \<open>
  \<open>self.axis2pos.items()\<close>. The order in which a Python 2 dictionary is iterated is
  not fixed by the language; the handlers below treat the axes independently of each
  other, so the order only decides which of several unparsable values an error message
  cites.
\<close>

definition axis2pos :: "(string \<times> nat) list" where
  "axis2pos = [(''X'', 0), (''Y'', 1), (''Z'', 2), (''E'', 3)]"

definition g1_axis :: "nat \<Rightarrow> real \<Rightarrow> unit act" where
  "g1_axis p v = (\<lambda>s.
     if \<not> absolutecoord s \<or> (p > 2 \<and> \<not> absoluteextrude s)
     then bnd (get_at last_position p) (\<lambda>old. set_last p (old + v)) s
     else bnd (get_at base_position p) (\<lambda>b. set_last p (v + b)) s)"

text \<open>
  The first \<open>try\<close> of \<open>cmd_G1\<close>: one round of its loop over the axes, the statements
  under \<open>if 'F' in params\<close>, and the whole body.
\<close>

definition g1_axis_step :: "params \<Rightarrow> string \<times> nat \<Rightarrow> unit act" where
  "g1_axis_step params = (\<lambda>(a, p).
     case params a of
       None \<Rightarrow> ret ()
     | Some str \<Rightarrow> (case py_float str of
                     None \<Rightarrow> raise ValueError
                   | Some v \<Rightarrow> g1_axis p v))"

definition g1_feed :: "params \<Rightarrow> unit act" where
  "g1_feed params =
     (case params ''F'' of
        None \<Rightarrow> ret ()
      | Some str \<Rightarrow> (case py_float str of
                      None \<Rightarrow> raise ValueError
                    | Some v \<Rightarrow> if v / 60 \<le> 0 then raise ValueError
                                else modify (\<lambda>s. s\<lparr>speed := v / 60\<rparr>)))"

definition g1_parse :: "params \<Rightarrow> unit act" where
  "g1_parse params = seq (for_each axis2pos (g1_axis_step params)) (g1_feed params)"

definition resync :: "env \<Rightarrow> unit act" where
  "resync ev = bnd (th_get_position ev) (\<lambda>pos. modify (\<lambda>s. s\<lparr>last_position := pos\<rparr>))"

definition move_error :: "params \<Rightarrow> exn" where
  "move_error params =
     (case params ''#original'' of
        None \<Rightarrow> KeyError ''#original''
      | Some orig \<Rightarrow> Gcode_error (''Unable to parse move '' @ quote @ orig @ quote))"

definition g1_move :: "env \<Rightarrow> unit act" where
  "g1_move ev = (\<lambda>s.
     case th_call ev (Th_move (last_position s) (speed s)) s of
       (Inl (EndstopError m), s1) \<Rightarrow> seq (respond_error ev m) (resync ev) s1
     | r \<Rightarrow> r)"

definition cmd_G1 :: "env \<Rightarrow> params \<Rightarrow> unit act" where
  "cmd_G1 ev params = (\<lambda>s.
     case g1_parse params s of
       (Inl ValueError, s1) \<Rightarrow> seq (resync ev) (raise (move_error params)) s1
     | (Inl e, s1) \<Rightarrow> (Inl e, s1)
     | (Inr _, s1) \<Rightarrow> g1_move ev s1)"

text \<open>
  \<open>cmd_G28\<close>. The homing object \<open>homing.Homing(self.toolhead, axes)\<close> is a
  collaborator: the call of \<open>toolhead.home\<close> is recorded with the axes and with whether
  \<open>set_no_verify_retract\<close> was called on it, and its \<open>get_axes()\<close> is taken to return
  the axes it was built with.
\<close>

definition g28_axes :: "params \<Rightarrow> nat list" where
  "g28_axes params =
     (let axes = map snd (filter (\<lambda>(a, p). params a \<noteq> None) (take 3 axis2pos))
      in if axes = [] then [0, 1, 2] else axes)"

definition cmd_G28 :: "env \<Rightarrow> params \<Rightarrow> unit act" where
  "cmd_G28 ev params = (\<lambda>s.
     let axes = g28_axes params in
     case th_call ev (Th_home axes (is_fileinput s)) s of
       (Inl (EndstopError m), s1) \<Rightarrow> seq (th_call ev Th_motor_off) (respond_error ev m) s1
     | (Inl e, s1) \<Rightarrow> (Inl e, s1)
     | (Inr _, s1) \<Rightarrow>
         bnd (th_get_position ev) (\<lambda>newpos.
           for_each axes (\<lambda>axis.
             seq (bnd (lift (py_index newpos (int axis))) (set_last axis))
                 (bnd (get_at homing_add axis) (\<lambda>h. set_base axis (- h))))) s1)"

definition cmd_G90 :: "unit act" where
  "cmd_G90 = modify (\<lambda>s. s\<lparr>absolutecoord := True\<rparr>)"

definition cmd_G91 :: "unit act" where
  "cmd_G91 = modify (\<lambda>s. s\<lparr>absolutecoord := False\<rparr>)"

definition cmd_M82 :: "unit act" where
  "cmd_M82 = modify (\<lambda>s. s\<lparr>absoluteextrude := True\<rparr>)"

definition cmd_M83 :: "unit act" where
  "cmd_M83 = modify (\<lambda>s. s\<lparr>absoluteextrude := False\<rparr>)"

text \<open>
  The dictionary \<open>offsets\<close> of \<open>cmd_G92\<close> and \<open>cmd_M206\<close>: every given axis is parsed
  by \<open>get_float\<close> before the first assignment.
\<close>

fun offsets_of :: "(string \<times> nat) list \<Rightarrow> params \<Rightarrow> exn + (nat \<times> real) list" where
  "offsets_of [] params = Inr []"
| "offsets_of ((a, p) # rest) params =
     (if params a = None then offsets_of rest params
      else (case get_float a params None of
              Inl e \<Rightarrow> Inl e
            | Inr x \<Rightarrow> (case offsets_of rest params of
                          Inl e \<Rightarrow> Inl e
                        | Inr xs \<Rightarrow> Inr ((p, x) # xs))))"

definition cmd_G92 :: "params \<Rightarrow> unit act" where
  "cmd_G92 params =
     bnd (lift (offsets_of axis2pos params)) (\<lambda>offsets.
       seq (for_each offsets (\<lambda>(p, offset).
              bnd (get_at last_position p) (\<lambda>l. set_base p (l - offset))))
           (if offsets = [] then modify (\<lambda>s. s\<lparr>base_position := last_position s\<rparr>)
            else ret ()))"

definition cmd_M206 :: "params \<Rightarrow> unit act" where
  "cmd_M206 params =
     bnd (lift (offsets_of axis2pos params)) (\<lambda>offsets.
       for_each offsets (\<lambda>(p, offset).
         seq (bnd (get_at base_position p) (\<lambda>b.
                bnd (get_at homing_add p) (\<lambda>h. set_base p (b + (h - offset)))))
             (set_homing p offset)))"

section \<open>Temperature and fan wrappers\<close>

text \<open>
  A handler that may wait, or that runs nested commands, has a budget \<open>fuel\<close>: the
  number of rounds a waiting loop may take and the depth to which \<open>process_commands\<close>
  may nest. Its result is \<open>None\<close> when the budget does not suffice, that is when the
  method has not returned within it.
\<close>

type_synonym 'a fact = "gstate \<Rightarrow> ((exn + 'a) \<times> gstate) option"

definition heater_get_temp :: "env \<Rightarrow> nat \<Rightarrow> (real \<times> real) act" where
  "heater_get_temp ev h =
     bnd (call ev (Heater_get_temp h)) (\<lambda>_ s. (Inr (env_temp ev (trace s)), s))"

fun temps :: "env \<Rightarrow> nat \<Rightarrow> nat \<Rightarrow> nat option list \<Rightarrow> (string list) act" where
  "temps ev i n [] = (\<lambda>s. (Inr [], s))"
| "temps ev i n (None # hs) = temps ev (Suc i) n hs"
| "temps ev i n (Some h # hs) = (\<lambda>s.
     case heater_get_temp ev h s of
       (Inl e, s1) \<Rightarrow> (Inl e, s1)
     | (Inr (cur, target), s1) \<Rightarrow>
        (case temps ev (Suc i) n hs s1 of
           (Inl e, s2) \<Rightarrow> (Inl e, s2)
         | (Inr out, s2) \<Rightarrow>
             (Inr (((if Suc i < n then ''T'' @ show_nat i else ''B'') @ '':''
                    @ env_fmt ev 1 cur @ '' /'' @ env_fmt ev 1 target) # out), s2)))"

definition get_temp :: "env \<Rightarrow> string act" where
  "get_temp ev = (\<lambda>s.
     if \<not> is_printer_ready s then (Inr ''T:0'', s)
     else bnd (temps ev 0 (length (heaters s)) (heaters s)) (\<lambda>out. ret (join '' '' out)) s)"

text \<open>The condition and the body of the loop of \<open>bg_temp\<close>.\<close>

definition bg_cond :: "env \<Rightarrow> nat \<Rightarrow> real \<Rightarrow> bool act" where
  "bg_cond ev h eventtime = (\<lambda>s.
     if \<not> is_printer_ready s then (Inr False, s)
     else bnd (call ev (Heater_check_busy h eventtime))
              (\<lambda>_ s. (Inr (env_check_busy ev (trace s)), s)) s)"

definition bg_body :: "env \<Rightarrow> real \<Rightarrow> real act" where
  "bg_body ev eventtime =
     bnd (th_get_last_move_time ev) (\<lambda>print_time.
     bnd (get_temp ev) (\<lambda>t.
     seq (respond ev t)
     (seq (emit (Reactor_pause (eventtime + 1)))
          (\<lambda>s. (Inr (env_pause ev (trace s)), s)))))"

fun bg_temp_loop :: "env \<Rightarrow> nat \<Rightarrow> nat \<Rightarrow> real \<Rightarrow> unit fact" where
  "bg_temp_loop ev 0 h eventtime s =
     (case bg_cond ev h eventtime s of
        (Inl e, s1) \<Rightarrow> Some (Inl e, s1)
      | (Inr busy, s1) \<Rightarrow> if busy then None else Some (Inr (), s1))"
| "bg_temp_loop ev (Suc fuel) h eventtime s =
     (case bg_cond ev h eventtime s of
        (Inl e, s1) \<Rightarrow> Some (Inl e, s1)
      | (Inr busy, s1) \<Rightarrow>
          if \<not> busy then Some (Inr (), s1)
          else (case bg_body ev eventtime s1 of
                  (Inl e, s2) \<Rightarrow> Some (Inl e, s2)
                | (Inr eventtime', s2) \<Rightarrow> bg_temp_loop ev fuel h eventtime' s2))"

definition bg_temp :: "env \<Rightarrow> nat \<Rightarrow> nat \<Rightarrow> unit fact" where
  "bg_temp ev fuel h = (\<lambda>s.
     if is_fileinput s then Some (Inr (), s)
     else (case emit Reactor_monotonic s of
             (_, s1) \<Rightarrow> bg_temp_loop ev fuel h (env_monotonic ev (trace s1)) s1))"

text \<open>
  \<open>set_temp\<close> up to its last statement: the result is the heater to wait for, when the
  last statement \<open>if wait: self.bg_temp(heater)\<close> is reached.
\<close>

definition find_heater :: "params \<Rightarrow> bool \<Rightarrow> (nat option) act" where
  "find_heater params is_bed = (\<lambda>s.
     if is_bed then (py_index (heaters s) (- 1), s)
     else if params ''T'' \<noteq> None
     then bnd (lift (get_int ''T'' params None)) (\<lambda>heater_index s.
            if 0 \<le> heater_index \<and> heater_index < int (length (heaters s)) - 1
            then (py_index (heaters s) heater_index, s) else (Inr None, s)) s
     else (case extruder s of
             Some (i, e) \<Rightarrow> (Inr (Some (e_heater e)), s)
           | None \<Rightarrow> (Inr None, s)))"

definition set_temp_start :: "env \<Rightarrow> params \<Rightarrow> bool \<Rightarrow> (nat option) act" where
  "set_temp_start ev params is_bed =
     bnd (lift (get_float ''S'' params (Some 0))) (\<lambda>temp.
     bnd (find_heater params is_bed) (\<lambda>heater.
       case heater of
         None \<Rightarrow> seq (if temp > 0 then respond_error ev ''Heater not configured'' else ret ())
                     (ret None)
       | Some h \<Rightarrow>
           bnd (th_get_last_move_time ev) (\<lambda>print_time s.
             case call ev (Heater_set_temp h print_time temp) s of
               (Inl (Heater_error m), s1) \<Rightarrow> seq (respond_error ev m) (ret None) s1
             | (Inl e, s1) \<Rightarrow> (Inl e, s1)
             | (Inr _, s1) \<Rightarrow> (Inr (Some h), s1))))"

definition set_temp :: "env \<Rightarrow> nat \<Rightarrow> params \<Rightarrow> bool \<Rightarrow> bool \<Rightarrow> unit fact" where
  "set_temp ev fuel params is_bed wait = (\<lambda>s.
     case set_temp_start ev params is_bed s of
       (Inl e, s1) \<Rightarrow> Some (Inl e, s1)
     | (Inr None, s1) \<Rightarrow> Some (Inr (), s1)
     | (Inr (Some h), s1) \<Rightarrow> if wait then bg_temp ev fuel h s1 else Some (Inr (), s1))"

definition set_fan_speed :: "env \<Rightarrow> real \<Rightarrow> unit act" where
  "set_fan_speed ev fan_speed = (\<lambda>s.
     if \<not> fan s
     then (if fan_speed \<noteq> 0 then respond_info ev ''Fan not configured'' else ret ()) s
     else bnd (th_get_last_move_time ev)
              (\<lambda>print_time. call ev (Fan_set_speed print_time fan_speed)) s)"

definition motor_heater_off :: "env \<Rightarrow> unit act" where
  "motor_heater_off ev = (\<lambda>s.
     if \<not> toolhead s then (Inr (), s)
     else seq (th_call ev Th_motor_off)
           (bnd (th_get_last_move_time ev) (\<lambda>print_time.
              seq (\<lambda>s. for_each (heaters s)
                         (\<lambda>heater. case heater of
                                      None \<Rightarrow> ret ()
                                    | Some h \<Rightarrow> call ev (Heater_set_temp h print_time 0)) s)
                  (\<lambda>s. if fan s then call ev (Fan_set_speed print_time 0) s
                        else (Inr (), s)))) s)"

section \<open>Individual command handlers\<close>

definition get_state_message :: "env \<Rightarrow> string act" where
  "get_state_message ev =
     bnd (call ev Get_state_message) (\<lambda>_ s. (Inr (env_state_message ev (trace s)), s))"

definition cmd_G4 :: "env \<Rightarrow> params \<Rightarrow> unit act" where
  "cmd_G4 ev params =
     bnd (if params ''S'' \<noteq> None then lift (get_float ''S'' params None)
          else bnd (lift (get_float ''P'' params (Some 0))) (\<lambda>p. ret (p / 1000)))
         (\<lambda>delay. th_call ev (Th_dwell delay))"

definition cmd_G20 :: "env \<Rightarrow> unit act" where
  "cmd_G20 ev = respond_error ev ''Machine does not support G20 (inches) command''"

definition cmd_M18 :: "env \<Rightarrow> unit act" where
  "cmd_M18 ev = th_call ev Th_motor_off"

definition cmd_M105 :: "env \<Rightarrow> unit act" where
  "cmd_M105 ev = bnd (get_temp ev) (\<lambda>t. ack ev (Some t))"

definition cmd_M112 :: "env \<Rightarrow> unit act" where
  "cmd_M112 ev = th_call ev Th_force_shutdown"

text \<open>
  \<open>cmd_M115\<close> joins the items of a two-entry dictionary; they are written here with
  \<open>FIRMWARE_NAME\<close> first.
\<close>

definition cmd_M115 :: "env \<Rightarrow> unit act" where
  "cmd_M115 ev =
     ack ev (Some (''FIRMWARE_NAME:Klipper FIRMWARE_VERSION:'' @ env_software_version ev))"

definition cmd_M106 :: "env \<Rightarrow> params \<Rightarrow> unit act" where
  "cmd_M106 ev params =
     bnd (lift (get_float ''S'' params (Some 255))) (\<lambda>v. set_fan_speed ev (v / 255))"

definition cmd_M107 :: "env \<Rightarrow> unit act" where
  "cmd_M107 ev = set_fan_speed ev 0"

definition cmd_M400 :: "env \<Rightarrow> unit act" where
  "cmd_M400 ev = th_call ev Th_wait_moves"

definition cmd_IGNORE :: "unit act" where
  "cmd_IGNORE = ret ()"

definition cmd_QUERY_ENDSTOPS :: "env \<Rightarrow> unit act" where
  "cmd_QUERY_ENDSTOPS ev = (\<lambda>s.
     if is_fileinput s then (Inr (), s)
     else (case th_call ev Th_query_endstops s of
             (Inl (EndstopError m), s1) \<Rightarrow> respond_error ev m s1
           | (Inl e, s1) \<Rightarrow> (Inl e, s1)
           | (Inr _, s1) \<Rightarrow>
               respond ev (join '' '' (map (\<lambda>(name, t). name @ '':''
                                             @ (if t then ''TRIGGERED'' else ''open''))
                                          (env_endstops ev (trace s1)))) s1))"

text \<open>
  \<open>cmd_PID_TUNE\<close> up to its last statement \<open>self.bg_temp(heater)\<close>; the result is the
  heater handed to \<open>bg_temp\<close>.
\<close>

definition pid_tune_start :: "env \<Rightarrow> params \<Rightarrow> nat act" where
  "pid_tune_start ev params =
     bnd (lift (get_int ''E'' params (Some 0))) (\<lambda>heater_index.
     seq (\<lambda>s. if heater_index < - 1 \<or> heater_index \<ge> int (length (heaters s)) - 1
                 \<or> py_index (heaters s) heater_index = Inr None
               then respond_error ev ''Heater not configured'' s
               else (Inr (), s))
     (bnd (\<lambda>s. (py_index (heaters s) heater_index, s)) (\<lambda>heater.
      bnd (lift (get_float ''S'' params None)) (\<lambda>temp.
        case heater of
          None \<Rightarrow> raise AttributeError
        | Some h \<Rightarrow> seq (call ev (Heater_start_auto_tune h temp)) (ret h)))))"

definition cmd_PID_TUNE :: "env \<Rightarrow> nat \<Rightarrow> params \<Rightarrow> unit fact" where
  "cmd_PID_TUNE ev fuel params = (\<lambda>s.
     case pid_tune_start ev params s of
       (Inl e, s1) \<Rightarrow> Some (Inl e, s1)
     | (Inr h, s1) \<Rightarrow> bg_temp ev fuel h s1)"

definition cmd_SET_SERVO :: "env \<Rightarrow> params \<Rightarrow> unit act" where
  "cmd_SET_SERVO ev params0 =
     bnd (lift (get_extended_params params0)) (\<lambda>params.
       case params ''SERVO'' of
         None \<Rightarrow> raise (missing_error params ''SERVO'')
       | Some name \<Rightarrow>
           if \<not> env_servo ev name then raise (Gcode_error ''Servo not configured'')
           else bnd (th_get_last_move_time ev) (\<lambda>print_time.
                  if params ''WIDTH'' \<noteq> None
                  then bnd (lift (get_float ''WIDTH'' params None))
                           (\<lambda>w. call ev (Servo_set_pulse_width name print_time w))
                  else bnd (lift (get_float ''ANGLE'' params None))
                           (\<lambda>a. call ev (Servo_set_angle name print_time a))))"

definition prep_restart :: "env \<Rightarrow> unit act" where
  "prep_restart ev = (\<lambda>s.
     if is_printer_ready s
     then seq (respond_info ev ''Preparing to restart...'')
          (seq (motor_heater_off ev)
          (seq (th_call ev (Th_dwell (1 / 2))) (th_call ev Th_wait_moves))) s
     else (Inr (), s))"

definition cmd_RESTART :: "env \<Rightarrow> unit act" where
  "cmd_RESTART ev = seq (prep_restart ev) (call ev (Request_exit (Some ''restart'')))"

definition cmd_FIRMWARE_RESTART :: "env \<Rightarrow> unit act" where
  "cmd_FIRMWARE_RESTART ev =
     seq (prep_restart ev) (call ev (Request_exit (Some ''firmware_restart'')))"

definition cmd_ECHO :: "env \<Rightarrow> params \<Rightarrow> unit act" where
  "cmd_ECHO ev params =
     (case params ''#original'' of
        None \<Rightarrow> raise (KeyError ''#original'')
      | Some orig \<Rightarrow> respond_info ev orig)"

definition cmd_STATUS :: "env \<Rightarrow> unit act" where
  "cmd_STATUS ev =
     bnd (get_state_message ev) (\<lambda>msg s.
       if is_printer_ready s then respond_info ev msg s else respond_error ev msg s)"

section \<open>The dispatch table and the initial state\<close>

definition all_handlers :: "handler list" where
  "all_handlers =
     [G1, G4, G20, G28, G90, G91, G92,
      M82, M83, M18, M105, M104, M109, M112, M114, M115,
      M140, M190, M106, M107, M206, M400,
      IGNORE, QUERY_ENDSTOPS, PID_TUNE, SET_SERVO,
      RESTART, FIRMWARE_RESTART, ECHO, STATUS, HELP]"

fun handler_name :: "handler \<Rightarrow> string" where
  "handler_name G1 = ''G1''" | "handler_name G4 = ''G4''" | "handler_name G20 = ''G20''"
| "handler_name G28 = ''G28''" | "handler_name G90 = ''G90''" | "handler_name G91 = ''G91''"
| "handler_name G92 = ''G92''" | "handler_name M82 = ''M82''" | "handler_name M83 = ''M83''"
| "handler_name M18 = ''M18''" | "handler_name M105 = ''M105''" | "handler_name M104 = ''M104''"
| "handler_name M109 = ''M109''" | "handler_name M112 = ''M112''" | "handler_name M114 = ''M114''"
| "handler_name M115 = ''M115''" | "handler_name M140 = ''M140''" | "handler_name M190 = ''M190''"
| "handler_name M106 = ''M106''" | "handler_name M107 = ''M107''" | "handler_name M206 = ''M206''"
| "handler_name M400 = ''M400''" | "handler_name IGNORE = ''IGNORE''"
| "handler_name QUERY_ENDSTOPS = ''QUERY_ENDSTOPS''" | "handler_name PID_TUNE = ''PID_TUNE''"
| "handler_name SET_SERVO = ''SET_SERVO''" | "handler_name RESTART = ''RESTART''"
| "handler_name FIRMWARE_RESTART = ''FIRMWARE_RESTART''" | "handler_name ECHO = ''ECHO''"
| "handler_name STATUS = ''STATUS''" | "handler_name HELP = ''HELP''"

text \<open>The class attributes \<open>cmd_*_when_not_ready\<close>, \<open>cmd_*_aliases\<close> and \<open>cmd_*_help\<close>.\<close>

definition when_not_ready :: "handler \<Rightarrow> bool" where
  "when_not_ready h =
     (h \<in> set [M105, M114, M115, IGNORE, RESTART, FIRMWARE_RESTART, ECHO, STATUS, HELP])"

definition aliases :: "handler \<Rightarrow> string list" where
  "aliases h =
     (if h = G1 then [''G0'']
      else if h = M18 then [''M84'']
      else if h = IGNORE then [''G21'', ''M110'', ''M21'']
      else if h = QUERY_ENDSTOPS then [''M119'']
      else if h = PID_TUNE then [''M303'']
      else [])"

definition help_text :: "string \<Rightarrow> string option" where
  "help_text name =
     map_of [(''QUERY_ENDSTOPS'', ''Report on the status of each endstop''),
             (''PID_TUNE'', ''Run PID Tuning''),
             (''SET_SERVO'', ''Set servo angle''),
             (''RESTART'', ''Reload config file and restart host software''),
             (''FIRMWARE_RESTART'', ''Restart firmware, host, and reload config''),
             (''STATUS'', ''Report the printer status'')] name"

text \<open>A dictionary as an association list with one entry for each key.\<close>

fun dict_set :: "'k \<Rightarrow> 'v \<Rightarrow> ('k \<times> 'v) list \<Rightarrow> ('k \<times> 'v) list" where
  "dict_set k v [] = [(k, v)]"
| "dict_set k v ((k', v') # r) = (if k = k' then (k, v) # r else (k', v') # dict_set k v r)"

definition build_handlers :: "bool \<Rightarrow> (string \<times> handler) list" where
  "build_handlers is_ready =
     (let handlers = (if is_ready then all_handlers else filter when_not_ready all_handlers);
          d = fold (\<lambda>h. dict_set (handler_name h) h) handlers []
      in fold (\<lambda>(h, f) d. fold (\<lambda>a. dict_set a f) (aliases f) d) d d)"

text \<open>\<open>__init__\<close>, for a printer started with or without \<open>debuginput\<close>.\<close>

definition init :: "bool \<Rightarrow> gstate" where
  "init fileinput =
     \<lparr> is_processing_data = False, is_fileinput = fileinput, fd_handle = (\<not> fileinput),
       partial_input = [], bytes_read = 0,
       gcode_handlers = build_handlers False, is_printer_ready = False, need_ack = False,
       toolhead = False, fan = False, extruder = None, heaters = [],
       speed = 25, absolutecoord = True, absoluteextrude = True,
       base_position = [0, 0, 0, 0], last_position = [0, 0, 0, 0],
       homing_add = [0, 0, 0, 0], trace = [] \<rparr>"

section \<open>Parsing input into commands\<close>

text \<open>
  \<open>args_r.split(s)\<close> for \<open>args_r = re.compile('([A-Z_]+|[A-Z*])')\<close>: the separators
  are the maximal runs of capital letters and underscores and each single \<open>*\<close>; the
  result alternates the text between separators with the separators themselves, starting
  and ending with a text (which may be empty).
\<close>

definition is_word_char :: "char \<Rightarrow> bool" where
  "is_word_char c = (c \<in> set ''ABCDEFGHIJKLMNOPQRSTUVWXYZ_'')"

fun split_text :: "string \<Rightarrow> string \<Rightarrow> string list"
  and split_sep :: "string \<Rightarrow> string \<Rightarrow> string list" where
  "split_text acc [] = [rev acc]"
| "split_text acc (c # cs) =
     (if c = CHR ''*'' then rev acc # ''*'' # split_text [] cs
      else if is_word_char c then rev acc # split_sep [c] cs
      else split_text (c # acc) cs)"
| "split_sep acc [] = [rev acc, []]"
| "split_sep acc (c # cs) =
     (if is_word_char c then split_sep (c # acc) cs
      else if c = CHR ''*'' then rev acc # [] # ''*'' # split_text [] cs
      else rev acc # split_text [c] cs)"

definition args_split :: "string \<Rightarrow> string list" where
  "args_split s = split_text [] s"

text \<open>The dictionary comprehension over the pairs of \<open>parts\<close>: a later pair with the
  same key replaces an earlier one.\<close>

fun mk_params :: "params \<Rightarrow> string list \<Rightarrow> params" where
  "mk_params m (k # v # rest) = mk_params (m(k \<mapsto> strip v)) rest"
| "mk_params m _ = m"

definition line_parts :: "string \<Rightarrow> string list" where
  "line_parts line = tl (args_split (upper (takeWhile (\<lambda>c. c \<noteq> CHR '';'') (strip line))))"

definition drop_line_number :: "string list \<Rightarrow> string list" where
  "drop_line_number parts = (if parts \<noteq> [] \<and> hd parts = ''N'' then drop 2 parts else parts)"

section \<open>Tool change, the default handler and the batch processor\<close>

text \<open>
  \<open>cmd_Tn\<close> calls \<open>process_commands\<close>, which calls the handlers: the nested call is the
  parameter \<open>pc\<close> of the handlers below, and \<open>process_commands\<close> closes the recursion
  over the nesting budget.
\<close>

type_synonym pc = "string list \<Rightarrow> bool \<Rightarrow> unit fact"

definition not_configured :: "env \<Rightarrow> int \<Rightarrow> unit act" where
  "not_configured ev index =
     respond_error ev (''Extruder '' @ show_int index @ '' not configured'')"

definition cmd_Tn :: "env \<Rightarrow> pc \<Rightarrow> params \<Rightarrow> unit fact" where
  "cmd_Tn ev pc params = (\<lambda>s.
     case get_int ''T'' params None of
       Inl e \<Rightarrow> Some (Inl e, s)
     | Inr index \<Rightarrow>
        (case extruder s of
           None \<Rightarrow> Some (not_configured ev index s)
         | Some (cur, cur_e) \<Rightarrow>
            if index < 0 \<or> index \<ge> int (length (env_extruders ev))
            then Some (not_configured ev index s)
            else if cur = nat index then Some (Inr (), s)
            else (case pc (split_on nl (e_deactivate_gcode cur_e)) False s of
                    None \<Rightarrow> None
                  | Some (Inl x, s1) \<Rightarrow> Some (Inl x, s1)
                  | Some (Inr _, s1) \<Rightarrow>
                     (case th_call ev (Th_set_extruder (nat index)) s1 of
                        (Inl (EndstopError m), s2) \<Rightarrow> Some (respond_error ev m s2)
                      | (Inl x, s2) \<Rightarrow> Some (Inl x, s2)
                      | (Inr _, s2) \<Rightarrow>
                         (let e = env_extruders ev ! nat index
                          in case resync ev (s2\<lparr>extruder := Some (nat index, e)\<rparr>) of
                               (Inl x, s3) \<Rightarrow> Some (Inl x, s3)
                             | (Inr _, s3) \<Rightarrow> pc (split_on nl (e_activate_gcode e)) False s3)))))"

definition cmd_default :: "env \<Rightarrow> pc \<Rightarrow> params \<Rightarrow> unit fact" where
  "cmd_default ev pc params = (\<lambda>s.
     if \<not> is_printer_ready s
     then Some (bnd (get_state_message ev) (respond_error ev) s)
     else (case params ''#command'' of
             None \<Rightarrow> Some (case params ''#original'' of
                             None \<Rightarrow> Inl (KeyError ''#original'')
                           | Some _ \<Rightarrow> Inr (), s)
           | Some cmd \<Rightarrow>
              (case cmd of
                 [] \<Rightarrow> Some (case params ''#original'' of
                               None \<Rightarrow> Inl (KeyError ''#original'')
                             | Some _ \<Rightarrow> Inr (), s)
               | c # cs \<Rightarrow>
                   if c = CHR ''T'' \<and> cs \<noteq> [] \<and> is_digit (hd cs) then cmd_Tn ev pc params s
                   else Some (respond_info ev (''Unknown command:'' @ dquote @ cmd @ dquote) s))))"

definition cmd_M114 :: "env \<Rightarrow> pc \<Rightarrow> params \<Rightarrow> unit fact" where
  "cmd_M114 ev pc params = (\<lambda>s.
     if \<not> toolhead s then cmd_default ev pc params s
     else Some (bnd (th_get_position ev) (\<lambda>kinpos.
                bnd (get_at last_position 0) (\<lambda>x.
                bnd (get_at last_position 1) (\<lambda>y.
                bnd (get_at last_position 2) (\<lambda>z.
                bnd (get_at last_position 3) (\<lambda>e.
                bnd (lift (py_index kinpos 0)) (\<lambda>kx.
                bnd (lift (py_index kinpos 1)) (\<lambda>ky.
                bnd (lift (py_index kinpos 2)) (\<lambda>kz.
                  respond ev (''X:'' @ env_fmt ev 3 x @ '' Y:'' @ env_fmt ev 3 y
                              @ '' Z:'' @ env_fmt ev 3 z @ '' E:'' @ env_fmt ev 3 e
                              @ '' Count X:'' @ env_fmt ev 3 kx @ '' Y:'' @ env_fmt ev 3 ky
                              @ '' Z:'' @ env_fmt ev 3 kz))))))))) s))"

definition ljust :: "nat \<Rightarrow> string \<Rightarrow> string" where
  "ljust n w = w @ replicate (n - length w) CHR '' ''"

definition cmd_HELP :: "env \<Rightarrow> unit act" where
  "cmd_HELP ev = (\<lambda>s.
     respond_info ev
       (join [nl]
          ((if \<not> is_printer_ready s
            then [''Printer is not ready - not all commands available.''] else [])
           @ [''Available extended commands:'']
           @ concat (map (\<lambda>cmd. case help_text cmd of
                                   None \<Rightarrow> []
                                 | Some desc \<Rightarrow> [ljust 10 cmd @ '': '' @ desc])
                         (sort (map fst (gcode_handlers s)))))) s)"

text \<open>The call \<open>handler(params)\<close>; \<open>None\<close> is the default of the lookup, \<open>cmd_default\<close>.\<close>

fun run_handler :: "env \<Rightarrow> nat \<Rightarrow> pc \<Rightarrow> handler option \<Rightarrow> params \<Rightarrow> unit fact" where
  "run_handler ev fuel pc None params s = cmd_default ev pc params s"
| "run_handler ev fuel pc (Some G1) params s = Some (cmd_G1 ev params s)"
| "run_handler ev fuel pc (Some G4) params s = Some (cmd_G4 ev params s)"
| "run_handler ev fuel pc (Some G20) params s = Some (cmd_G20 ev s)"
| "run_handler ev fuel pc (Some G28) params s = Some (cmd_G28 ev params s)"
| "run_handler ev fuel pc (Some G90) params s = Some (cmd_G90 s)"
| "run_handler ev fuel pc (Some G91) params s = Some (cmd_G91 s)"
| "run_handler ev fuel pc (Some G92) params s = Some (cmd_G92 params s)"
| "run_handler ev fuel pc (Some M82) params s = Some (cmd_M82 s)"
| "run_handler ev fuel pc (Some M83) params s = Some (cmd_M83 s)"
| "run_handler ev fuel pc (Some M18) params s = Some (cmd_M18 ev s)"
| "run_handler ev fuel pc (Some M105) params s = Some (cmd_M105 ev s)"
| "run_handler ev fuel pc (Some M104) params s = set_temp ev fuel params False False s"
| "run_handler ev fuel pc (Some M109) params s = set_temp ev fuel params False True s"
| "run_handler ev fuel pc (Some M112) params s = Some (cmd_M112 ev s)"
| "run_handler ev fuel pc (Some M114) params s = cmd_M114 ev pc params s"
| "run_handler ev fuel pc (Some M115) params s = Some (cmd_M115 ev s)"
| "run_handler ev fuel pc (Some M140) params s = set_temp ev fuel params True False s"
| "run_handler ev fuel pc (Some M190) params s = set_temp ev fuel params True True s"
| "run_handler ev fuel pc (Some M106) params s = Some (cmd_M106 ev params s)"
| "run_handler ev fuel pc (Some M107) params s = Some (cmd_M107 ev s)"
| "run_handler ev fuel pc (Some M206) params s = Some (cmd_M206 params s)"
| "run_handler ev fuel pc (Some M400) params s = Some (cmd_M400 ev s)"
| "run_handler ev fuel pc (Some IGNORE) params s = Some (cmd_IGNORE s)"
| "run_handler ev fuel pc (Some QUERY_ENDSTOPS) params s = Some (cmd_QUERY_ENDSTOPS ev s)"
| "run_handler ev fuel pc (Some PID_TUNE) params s = cmd_PID_TUNE ev fuel params s"
| "run_handler ev fuel pc (Some SET_SERVO) params s = Some (cmd_SET_SERVO ev params s)"
| "run_handler ev fuel pc (Some RESTART) params s = Some (cmd_RESTART ev s)"
| "run_handler ev fuel pc (Some FIRMWARE_RESTART) params s = Some (cmd_FIRMWARE_RESTART ev s)"
| "run_handler ev fuel pc (Some ECHO) params s = Some (cmd_ECHO ev params s)"
| "run_handler ev fuel pc (Some STATUS) params s = Some (cmd_STATUS ev s)"
| "run_handler ev fuel pc (Some HELP) params s = Some (cmd_HELP ev s)"

text \<open>
  What follows \<open>handler(params)\<close> in the loop of \<open>process_commands\<close>: the two \<open>except\<close>
  clauses and \<open>self.ack()\<close>. The result says whether the loop goes on (\<open>True\<close>) or is
  left by \<open>break\<close> (\<open>False\<close>).
\<close>

definition after_handler :: "env \<Rightarrow> string \<Rightarrow> (exn + unit) \<Rightarrow> bool act" where
  "after_handler ev cmd r =
     (case r of
        Inr _ \<Rightarrow> seq (ack ev None) (ret True)
      | Inl (Gcode_error m) \<Rightarrow> seq (respond_error ev m) (seq (ack ev None) (ret True))
      | Inl _ \<Rightarrow>
          seq (th_call ev Th_force_shutdown)
         (seq (respond_error ev (''Internal error on command:'' @ dquote @ cmd @ dquote))
              (\<lambda>s. if is_fileinput s then seq (call ev (Request_exit None)) (ret False) s
                    else seq (ack ev None) (ret True) s)))"

text \<open>
  One round of the loop of \<open>process_commands\<close>. \<open>parse_line\<close> is the part before the
  handler is looked up: the parameters, and the command when the line has one. A list of
  parts of odd length would make \<open>parts[i+1]\<close> an \<open>IndexError\<close>; \<open>args_r.split\<close> gives
  none.
\<close>

definition parse_line :: "string \<Rightarrow> exn + (params \<times> string option)" where
  "parse_line line =
     (let origline = strip line;
          parts0 = line_parts line;
          params0 = (mk_params Map.empty parts0)(''#original'' \<mapsto> origline)
      in case drop_line_number parts0 of
           [] \<Rightarrow> Inr (params0, None)
         | [p0] \<Rightarrow> Inl IndexError
         | p0 # p1 # _ \<Rightarrow>
             Inr (params0(''#command'' \<mapsto> p0 @ strip p1), Some (p0 @ strip p1)))"

definition process_line :: "env \<Rightarrow> nat \<Rightarrow> pc \<Rightarrow> bool \<Rightarrow> string \<Rightarrow> bool fact" where
  "process_line ev fuel pc need_ack' line = (\<lambda>s.
     case parse_line line of
       Inl e \<Rightarrow> Some (Inl e, s)
     | Inr (params, None) \<Rightarrow>
         (case cmd_default ev pc params s of
            None \<Rightarrow> None
          | Some (Inl e, s1) \<Rightarrow> Some (Inl e, s1)
          | Some (Inr _, s1) \<Rightarrow> Some (Inr True, s1))
     | Inr (params, Some cmd) \<Rightarrow>
         (let s1 = s\<lparr>need_ack := need_ack'\<rparr>
          in case run_handler ev fuel pc (map_of (gcode_handlers s1) cmd) params s1 of
               None \<Rightarrow> None
             | Some (r, s2) \<Rightarrow> Some (after_handler ev cmd r s2)))"

fun process_lines :: "env \<Rightarrow> nat \<Rightarrow> pc \<Rightarrow> bool \<Rightarrow> string list \<Rightarrow> unit fact" where
  "process_lines ev fuel pc need_ack' [] s = Some (Inr (), s)"
| "process_lines ev fuel pc need_ack' (line # commands) s =
     (case process_line ev fuel pc need_ack' line s of
        None \<Rightarrow> None
      | Some (Inl e, s1) \<Rightarrow> Some (Inl e, s1)
      | Some (Inr go_on, s1) \<Rightarrow>
          if go_on then process_lines ev fuel pc need_ack' commands s1
          else Some (Inr (), s1))"

definition process_commands_body :: "env \<Rightarrow> nat \<Rightarrow> pc \<Rightarrow> string list \<Rightarrow> bool \<Rightarrow> unit fact" where
  "process_commands_body ev fuel pc commands need_ack' = (\<lambda>s.
     let prev_need_ack = need_ack s
     in case process_lines ev fuel pc need_ack' commands s of
          None \<Rightarrow> None
        | Some (Inl e, s1) \<Rightarrow> Some (Inl e, s1)
        | Some (Inr _, s1) \<Rightarrow> Some (Inr (), s1\<lparr>need_ack := prev_need_ack\<rparr>))"

fun process_commands :: "env \<Rightarrow> nat \<Rightarrow> string list \<Rightarrow> bool \<Rightarrow> unit fact" where
  "process_commands ev 0 commands need_ack' s = None"
| "process_commands ev (Suc fuel) commands need_ack' s =
     process_commands_body ev fuel (process_commands ev fuel) commands need_ack' s"

section \<open>Readiness and reading input\<close>

definition set_printer_ready :: "env \<Rightarrow> bool \<Rightarrow> unit act" where
  "set_printer_ready ev is_ready = (\<lambda>s.
     if is_printer_ready s = is_ready then (Inr (), s)
     else let s1 = s\<lparr>is_printer_ready := is_ready, gcode_handlers := build_handlers is_ready\<rparr>
          in if \<not> is_ready
             then (if is_fileinput s1 then call ev (Request_exit None) s1 else (Inr (), s1))
             else seq (modify (\<lambda>s. s\<lparr>toolhead := env_toolhead ev\<rparr>))
                 (seq (case env_extruders ev of
                         [] \<Rightarrow> ret ()
                       | e # _ \<Rightarrow> seq (modify (\<lambda>s. s\<lparr>extruder := Some (0, e)\<rparr>))
                                     (th_call ev (Th_set_extruder 0)))
                 (seq (modify (\<lambda>s. s\<lparr>heaters := map (\<lambda>e. Some (e_heater e)) (env_extruders ev)
                                                    @ [env_heater_bed ev],
                                        fan := env_fan ev\<rparr>))
                      (\<lambda>s. if is_fileinput s \<and> \<not> fd_handle s
                            then seq (emit Reactor_register_fd)
                                     (modify (\<lambda>s. s\<lparr>fd_handle := True\<rparr>)) s
                            else (Inr (), s)))) s1)"

text \<open>
  \<open>process_data\<close>. The bytes that \<open>os.read\<close> returns are the argument \<open>data\<close>.
  The first statements split them into complete lines and keep the unfinished rest.
\<close>

definition frame_input :: "string \<Rightarrow> gstate \<Rightarrow> string list \<times> gstate" where
  "frame_input data s =
     (case split_on nl data of
        [] \<Rightarrow> ([], s)
      | l # ls \<Rightarrow>
          (let lines = (partial_input s @ l) # ls
           in (butlast lines,
               s\<lparr>bytes_read := bytes_read s + length data, partial_input := last lines\<rparr>)))"

text \<open>
  The statements under \<open>if self.is_processing_data\<close> that come before the waiting
  loop. The result is \<open>False\<close> when \<open>process_data\<close> returns at once.
\<close>

definition before_wait :: "env \<Rightarrow> string list \<Rightarrow> bool act" where
  "before_wait ev lines = (\<lambda>s.
     if \<not> is_fileinput s \<and> lines = [] then (Inr False, s)
     else seq (emit Reactor_unregister_fd)
         (seq (modify (\<lambda>s. s\<lparr>fd_handle := False\<rparr>))
         (seq (\<lambda>s. case lines of
                      [] \<Rightarrow> (Inr (), s)
                    | l # _ \<Rightarrow> if \<not> is_fileinput s \<and> upper (strip l) = ''M112''
                               then cmd_M112 ev s else (Inr (), s))
              (ret True))) s)"

text \<open>
  The waiting loop \<open>while self.is_processing_data: eventtime = self.reactor.pause(...)\<close>.
  While this call is paused the reactor runs the call that is processing the earlier
  batch; that call clears \<open>is_processing_data\<close> when it is done. The model keeps of
  it only the answer \<open>env_batch_done\<close>: whether the flag is cleared when the pause
  returns.
\<close>

fun wait_loop :: "env \<Rightarrow> nat \<Rightarrow> real \<Rightarrow> gstate \<Rightarrow> gstate option" where
  "wait_loop ev 0 eventtime s = (if is_processing_data s then None else Some s)"
| "wait_loop ev (Suc fuel) eventtime s =
     (if \<not> is_processing_data s then Some s
      else (let s1 = s\<lparr>trace := trace s @ [Reactor_pause (eventtime + 1 / 10)]\<rparr>
            in wait_loop ev fuel (env_pause ev (trace s1))
                 (s1\<lparr>is_processing_data := \<not> env_batch_done ev (trace s1)\<rparr>)))"

definition run_batch :: "env \<Rightarrow> nat \<Rightarrow> string \<Rightarrow> string list \<Rightarrow> unit fact" where
  "run_batch ev fuel data lines = (\<lambda>s.
     case process_commands ev fuel lines True (s\<lparr>is_processing_data := True\<rparr>) of
       None \<Rightarrow> None
     | Some (Inl e, s1) \<Rightarrow> Some (Inl e, s1)
     | Some (Inr _, s1) \<Rightarrow>
         Some (seq (if data = [] \<and> is_fileinput s1
                    then seq (motor_heater_off ev)
                        (seq (\<lambda>s. if toolhead s then th_call ev Th_wait_moves s
                                   else (Inr (), s))
                             (call ev (Request_exit None)))
                    else ret ())
                   (modify (\<lambda>s. s\<lparr>is_processing_data := False\<rparr>)) s1))"

definition process_data :: "env \<Rightarrow> nat \<Rightarrow> real \<Rightarrow> string \<Rightarrow> unit fact" where
  "process_data ev fuel eventtime data = (\<lambda>s.
     case frame_input data s of
       (lines, s0) \<Rightarrow>
         if is_processing_data s0
         then (case before_wait ev lines s0 of
                 (Inl e, s1) \<Rightarrow> Some (Inl e, s1)
               | (Inr go_on, s1) \<Rightarrow>
                   if \<not> go_on then Some (Inr (), s1)
                   else (case wait_loop ev fuel eventtime s1 of
                           None \<Rightarrow> None
                         | Some s2 \<Rightarrow>
                             run_batch ev fuel data lines
                               (s2\<lparr>trace := trace s2 @ [Reactor_register_fd],
                                   fd_handle := True\<rparr>)))
         else run_batch ev fuel data lines s0)"

text \<open>
  An environment in which no call raises, with one extruder (heater 0) and a bed
  heater (heater 1), and the state of a printer that has become ready in it.
\<close>

definition quiet_env :: env where
  "quiet_env =
     \<lparr> env_raises = (\<lambda>_. None), env_position = (\<lambda>_. [1, 2, 3, 4]),
       env_last_move_time = (\<lambda>_. 0), env_endstops = (\<lambda>_. []), env_temp = (\<lambda>_. (20, 0)),
       env_check_busy = (\<lambda>_. False), env_state_message = (\<lambda>_. ''Printer is ready''),
       env_monotonic = (\<lambda>_. 0), env_pause = (\<lambda>_. 0), env_batch_done = (\<lambda>_. True),
       env_toolhead = True, env_heater_bed = Some 1, env_fan = True,
       env_extruders = [\<lparr> e_heater = 0, e_activate_gcode = [], e_deactivate_gcode = [] \<rparr>],
       env_servo = (\<lambda>_. False), env_software_version = ''v0'',
       env_fmt = (\<lambda>_ _. ''?'') \<rparr>"

definition ready_state :: gstate where
  "ready_state = snd (set_printer_ready quiet_env True (init False))"

text \<open>
  The same printer with a second extruder (heater 2) and activation macros, and its
  state once ready.
\<close>

definition two_tool_env :: env where
  "two_tool_env =
     quiet_env\<lparr>env_extruders :=
       [\<lparr> e_heater = 0, e_activate_gcode = ''G90'', e_deactivate_gcode = ''G91'' \<rparr>,
        \<lparr> e_heater = 2, e_activate_gcode = ''G90'' @ [nl] @ ''M105'',
          e_deactivate_gcode = ''G91'' \<rparr>]\<rparr>"

definition two_tool_state :: gstate where
  "two_tool_state = snd (set_printer_ready two_tool_env True (init False))"

section \<open>Expected results\<close>


text \<open>
  The position a move command asks for on one axis: the prior position when the axis
  is not given, the prior position plus the value in relative mode, the base position
  plus the value in absolute mode.
\<close>

definition target :: "gstate \<Rightarrow> params \<Rightarrow> string \<times> nat \<Rightarrow> real" where
  "target s params = (\<lambda>(a, p).
     case params a of
       None \<Rightarrow> last_position s ! p
     | Some str \<Rightarrow> if \<not> absolutecoord s \<or> (p > 2 \<and> \<not> absoluteextrude s)
                   then last_position s ! p + the (py_float str)
                   else the (py_float str) + base_position s ! p)"

text \<open>
  The pairs that the tokens \<open>key=value\<close> of an extended command stand for: the key in
  upper case, and what follows the first \<open>=\<close>.
\<close>

definition eq_pairs :: "string list \<Rightarrow> (string \<times> string) list" where
  "eq_pairs toks =
     map (\<lambda>tok. (upper (takeWhile (\<lambda>c. c \<noteq> CHR ''='') tok),
                  tl (dropWhile (\<lambda>c. c \<noteq> CHR ''='') tok))) toks"

text \<open>A line with a character that is not whitespace.\<close>

definition nonblank :: "string \<Rightarrow> bool" where
  "nonblank x = (\<exists>c \<in> set x. \<not> is_space c)"

section \<open>Properties of the coordinate handlers\<close>

lemmas act_defs = bnd_def seq_def ret_def raise_def lift_def modify_def emit_def

lemma length_4: "length xs = 4 \<Longrightarrow> \<exists>a b c d. xs = [a, b, c, d]"
  by (auto simp: length_Suc_conv numeral_eq_Suc)


lemma offsets_of_fail:
  "(a, p) \<in> set axes \<Longrightarrow> params a = Some v \<Longrightarrow> py_float v = None \<Longrightarrow>
   \<exists>w. py_float w = None \<and> w \<in> ran params \<and> offsets_of axes params = Inl (parse_error params w)"
proof (induction axes)
  case Nil
  then show ?case by simp
next
  case (Cons ap axes)
  obtain a' p' where ap: "ap = (a', p')" by (cases ap)
  show ?case
  proof (cases "params a'")
    case None
    with Cons ap show ?thesis by auto
  next
    case (Some v')
    note given = this
    show ?thesis
    proof (cases "py_float v'")
      case None
      moreover from given have "v' \<in> ran params" by (auto simp: ran_def)
      ultimately show ?thesis using given ap by (auto simp: get_float_def)
    next
      case (Some x)
      with given Cons ap have "(a, p) \<in> set axes" by auto
      from Cons.IH[OF this Cons.prems(2,3)] obtain w
        where "py_float w = None" "w \<in> ran params"
          "offsets_of axes params = Inl (parse_error params w)" by blast
      with Some given ap show ?thesis by (auto simp: get_float_def)
    qed
  qed
qed


lemmas str_defs = strip_def lstrip_def rstrip_def is_space_def
lemmas float_defs = py_float_def split_sign_def mantissa_def is_digit_def is_exp_mark_def
  nat_of_digits_def digit_val_def



text \<open>
  C9. When one of the axis values given to a set-position (G92) or set-home-offset
  (M206) command does not parse as a number, the command raises the module's error and
  leaves every field of the object as it was, \<open>base_position\<close> and \<open>homing_add\<close> among
  them: all the given values are parsed before the first assignment.
\<close>

theorem set_position_all_or_nothing:
  assumes "(a, p) \<in> set axis2pos" and "params a = Some v" and "py_float v = None"
    and "params ''#original'' = Some orig"
  shows "\<exists>w. py_float w = None \<and> w \<in> ran params \<and>
           cmd_G92 params s
             = (Inl (Gcode_error (''Error on '' @ quote @ orig @ quote
                                   @ '': unable to parse '' @ w)), s) \<and>
           cmd_M206 params s
             = (Inl (Gcode_error (''Error on '' @ quote @ orig @ quote
                                   @ '': unable to parse '' @ w)), s)"
proof -
  from assms(1-3) obtain w where w: "py_float w = None" "w \<in> ran params"
      "offsets_of axis2pos params = Inl (parse_error params w)"
    using offsets_of_fail[of a p axis2pos params v] by blast
  from w(3) assms(4) have
    "cmd_G92 params s
       = (Inl (Gcode_error (''Error on '' @ quote @ orig @ quote @ '': unable to parse '' @ w)), s)"
    "cmd_M206 params s
       = (Inl (Gcode_error (''Error on '' @ quote @ orig @ quote @ '': unable to parse '' @ w)), s)"
    by (simp_all add: cmd_G92_def cmd_M206_def act_defs parse_error_def)
  with w(1,2) show ?thesis by blast
qed

theorem set_position_all_or_nothing_witness:
  "\<exists>w. py_float w = None \<and>
     cmd_G92 [''#original'' \<mapsto> ''G92 X1.2.3 Y5'', ''X'' \<mapsto> ''1.2.3'', ''Y'' \<mapsto> ''5'']
         (init False)
       = (Inl (Gcode_error (''Error on '' @ quote @ ''G92 X1.2.3 Y5'' @ quote
                             @ '': unable to parse '' @ w)), init False) \<and>
     cmd_M206 [''#original'' \<mapsto> ''G92 X1.2.3 Y5'', ''X'' \<mapsto> ''1.2.3'', ''Y'' \<mapsto> ''5'']
         (init False)
       = (Inl (Gcode_error (''Error on '' @ quote @ ''G92 X1.2.3 Y5'' @ quote
                             @ '': unable to parse '' @ w)), init False)"
proof -
  have "(''X'', 0) \<in> set axis2pos" by (simp add: axis2pos_def)
  moreover have "py_float ''1.2.3'' = None" by (simp add: float_defs str_defs)
  ultimately show ?thesis
    using set_position_all_or_nothing
      [of "''X''" 0 "[''#original'' \<mapsto> ''G92 X1.2.3 Y5'', ''X'' \<mapsto> ''1.2.3'', ''Y'' \<mapsto> ''5'']"
          "''1.2.3''" "''G92 X1.2.3 Y5''" "init False"]
    by auto
qed





lemma g1_axes_ok:
  assumes len: "length (last_position s) = 4" "length (base_position s) = 4"
    and ok: "\<forall>(a, p) \<in> set axis2pos. \<forall>v. params a = Some v \<longrightarrow> py_float v \<noteq> None"
  shows "for_each axis2pos (g1_axis_step params) s
           = (Inr (), s\<lparr>last_position := map (target s params) axis2pos\<rparr>)"
proof -
  from len obtain l0 l1 l2 l3 b0 b1 b2 b3 where
    l: "last_position s = [l0, l1, l2, l3]" and b: "base_position s = [b0, b1, b2, b3]"
    using length_4 by metis
  show ?thesis using ok
    by (auto simp: axis2pos_def g1_axis_step_def target_def g1_axis_def act_defs get_at_def set_last_def l b
        split: option.splits)
qed

lemma respond_speed: "speed (snd (respond ev m s)) = speed s"
  by (simp add: respond_def act_defs)




lemma nth_targets:
  "(a, p) \<in> set axis2pos \<Longrightarrow> map f axis2pos ! p = f (a, p)"
  by (auto simp: axis2pos_def)


lemma ready_state_eq:
  "ready_state = (init False)\<lparr>is_printer_ready := True, gcode_handlers := build_handlers True,
     toolhead := True,
     extruder := Some (0, \<lparr> e_heater = 0, e_activate_gcode = [], e_deactivate_gcode = [] \<rparr>),
     trace := [Th_set_extruder 0], heaters := [Some 0, Some 1], fan := True\<rparr>"
  by (simp add: ready_state_def set_printer_ready_def quiet_env_def init_def act_defs th_call_def
      call_def Let_def)

lemma py_float_samples:
  "py_float ''10'' = Some 10" "py_float ''1.2.3'' = None" "py_float ''600'' = Some 600"
  "py_float ''0'' = Some 0" "py_float ''5'' = Some 5"
  by (simp_all add: float_defs str_defs)

lemma handler_G1: "map_of (build_handlers True) ''G1'' = Some G1"
  by code_simp

lemma parts_samples:
  "line_parts ''G1 X10 Y1.2.3'' = [''G'', ''1 '', ''X'', ''10 '', ''Y'', ''1.2.3'']"
  "line_parts ''G1 X1.2.3 F600'' = [''G'', ''1 '', ''X'', ''1.2.3 '', ''F'', ''600'']"
  by code_simp+

lemmas run_g1_defs = process_commands_body_def process_line_def parse_line_def drop_line_number_def
    init_def str_defs cmd_G1_def g1_parse_def g1_axis_step_def g1_feed_def axis2pos_def act_defs
    g1_axis_def get_at_def set_last_def resync_def th_get_position_def th_call_def call_def
    quiet_env_def move_error_def after_handler_def respond_error_def respond_def ack_def
    nl_def quote_def Let_def

text \<open>
  C2, as the code has it. When every axis value given to a move command parses, the
  feed rate, if given, parses to a positive speed, and the toolhead accepts the move,
  the command returns normally and for each axis: an axis that is not given keeps its
  \<open>last_position\<close>; a given axis gets the prior \<open>last_position\<close> plus the value in
  relative mode (for the extrusion axis: when either mode flag is relative), and
  \<open>base_position\<close> plus the value otherwise.
\<close>

theorem move_sets_last_position:
  assumes len: "length (last_position s) = 4" "length (base_position s) = 4"
    and ok: "\<forall>(a, p) \<in> set axis2pos. \<forall>w. params a = Some w \<longrightarrow> py_float w \<noteq> None"
    and fok: "\<forall>fs. params ''F'' = Some fs \<longrightarrow> (\<exists>v. py_float fs = Some v \<and> 0 < v / 60)"
    and th: "toolhead s"
    and mv: "\<forall>tgt sp. env_raises ev (trace s @ [Th_move tgt sp]) = None"
  shows "\<exists>s'. cmd_G1 ev params s = (Inr (), s') \<and>
           (\<forall>(a, p) \<in> set axis2pos.
              last_position s' ! p =
                (case params a of
                   None \<Rightarrow> last_position s ! p
                 | Some str \<Rightarrow>
                     if \<not> absolutecoord s \<or> (p > 2 \<and> \<not> absoluteextrude s)
                     then last_position s ! p + the (py_float str)
                     else base_position s ! p + the (py_float str)))"
proof -
  let ?tgt = "map (target s params) axis2pos"
  define sp where "sp = (case params ''F'' of None \<Rightarrow> speed s | Some fs \<Rightarrow> the (py_float fs) / 60)"
  have "g1_feed params (s\<lparr>last_position := ?tgt\<rparr>)
          = (Inr (), s\<lparr>last_position := ?tgt, speed := sp\<rparr>)"
    using fok by (cases "params ''F''") (auto simp: g1_feed_def sp_def act_defs)
  then have "g1_parse params s = (Inr (), s\<lparr>last_position := ?tgt, speed := sp\<rparr>)"
    by (simp add: g1_parse_def g1_axes_ok[of s params, OF len ok] act_defs)
  then obtain s1 where p: "g1_parse params s = (Inr (), s1)"
    and s1: "last_position s1 = ?tgt" "trace s1 = trace s" "toolhead s1 = toolhead s"
    by simp
  have "g1_move ev s1 = (Inr (), s1\<lparr>trace := trace s @ [Th_move ?tgt (speed s1)]\<rparr>)"
    using s1 th mv by (simp add: g1_move_def th_call_def call_def Let_def)
  with p have c: "cmd_G1 ev params s = (Inr (), s1\<lparr>trace := trace s @ [Th_move ?tgt (speed s1)]\<rparr>)"
    by (simp add: cmd_G1_def)
  have "\<forall>(a, p) \<in> set axis2pos. ?tgt ! p = target s params (a, p)"
    using nth_targets by blast
  then have "\<forall>(a, p) \<in> set axis2pos.
              last_position (s1\<lparr>trace := trace s @ [Th_move ?tgt (speed s1)]\<rparr>) ! p =
                (case params a of
                   None \<Rightarrow> last_position s ! p
                 | Some str \<Rightarrow>
                     if \<not> absolutecoord s \<or> (p > 2 \<and> \<not> absoluteextrude s)
                     then last_position s ! p + the (py_float str)
                     else base_position s ! p + the (py_float str))"
    using s1 by (auto simp: target_def split: option.splits)
  with c show ?thesis by blast
qed


theorem move_sets_last_position_witness:
  "\<exists>s'. cmd_G1 quiet_env [''#original'' \<mapsto> ''G1 X10 F600'', ''X'' \<mapsto> ''10'', ''F'' \<mapsto> ''600'']
            ready_state = (Inr (), s')
        \<and> last_position s' ! 0 = base_position ready_state ! 0 + 10
        \<and> last_position s' ! 1 = last_position ready_state ! 1"
proof -
  let ?p = "[''#original'' \<mapsto> ''G1 X10 F600'', ''X'' \<mapsto> ''10'', ''F'' \<mapsto> ''600'']"
  have 1: "length (last_position ready_state) = 4" "length (base_position ready_state) = 4"
    by (simp_all add: ready_state_eq init_def)
  have 2: "\<forall>(a, p) \<in> set axis2pos. \<forall>w. ?p a = Some w \<longrightarrow> py_float w \<noteq> None"
    by (simp add: axis2pos_def py_float_samples)
  have 3: "\<forall>fs. ?p ''F'' = Some fs \<longrightarrow> (\<exists>v. py_float fs = Some v \<and> 0 < v / 60)"
    by (simp add: py_float_samples)
  have 4: "toolhead ready_state" by (simp add: ready_state_eq)
  have 5: "\<forall>tgt sp. env_raises quiet_env (trace ready_state @ [Th_move tgt sp]) = None"
    by (simp add: quiet_env_def)
  from move_sets_last_position[of ready_state ?p quiet_env, OF 1 2 3 4 5]
  obtain s' where r: "cmd_G1 quiet_env ?p ready_state = (Inr (), s')"
    and t: "\<forall>(a, p) \<in> set axis2pos.
              last_position s' ! p =
                (case ?p a of
                   None \<Rightarrow> last_position ready_state ! p
                 | Some str \<Rightarrow>
                     if \<not> absolutecoord ready_state \<or> (p > 2 \<and> \<not> absoluteextrude ready_state)
                     then last_position ready_state ! p + the (py_float str)
                     else base_position ready_state ! p + the (py_float str))"
    by blast
  from t have "last_position s' ! 0 = base_position ready_state ! 0 + 10"
    "last_position s' ! 1 = last_position ready_state ! 1"
    by (simp_all add: axis2pos_def py_float_samples ready_state_eq init_def)
  with r show ?thesis by blast
qed

text \<open>
  The claim as it is written fails when another value of the same command does not
  parse: in absolute mode, \<open>G1 X10 Y1.2.3\<close> has the parsable value 10 for X, and leaves
  \<open>last_position\<close> at the toolhead's position (1 for X), not at \<open>base_position + 10\<close>.
\<close>

theorem move_sets_last_position_counterexample:
  "absolutecoord ready_state
   \<and> mk_params Map.empty (line_parts ''G1 X10 Y1.2.3'') ''X'' = Some ''10''
   \<and> py_float ''10'' = Some 10
   \<and> last_position (snd (the (process_commands quiet_env 1 [''G1 X10 Y1.2.3''] True ready_state))) ! 0 = 1
   \<and> last_position (snd (the (process_commands quiet_env 1 [''G1 X10 Y1.2.3''] True ready_state))) ! 0
       \<noteq> base_position ready_state ! 0 + 10"
  by (simp add: ready_state_eq parts_samples handler_G1 py_float_samples run_g1_defs)







section \<open>Properties of the parser and the batch processor\<close>

lemma split_lengths:
  "odd (length (split_text acc s))" "even (length (split_sep acc s))"
  by (induction acc s and acc s rule: split_text_split_sep.induct) auto

lemma line_parts_even: "even (length (line_parts line))"
proof -
  have "odd (length (args_split s))" for s by (simp add: args_split_def split_lengths)
  then show ?thesis by (simp add: line_parts_def)
qed

lemma drop_line_number_even: "even (length (drop_line_number (line_parts line)))"
  using line_parts_even[of line] by (auto simp: drop_line_number_def)

lemma parts_g28: "line_parts ''G28'' = [''G'', ''28'']"
  by code_simp

text \<open>
  C6, as the code has it. For every line that still has parts after a leading
  line-number pair is dropped, the pseudo-field \<open>#command\<close> is the first letter group
  followed by the whole of the token after it, stripped of surrounding whitespace (and
  \<open>#original\<close> is the stripped line).
\<close>

theorem command_key_whole_token:
  assumes "drop_line_number (line_parts line) \<noteq> []"
  shows "\<exists>p0 p1 rest params.
           drop_line_number (line_parts line) = p0 # p1 # rest
           \<and> parse_line line = Inr (params, Some (p0 @ strip p1))
           \<and> params ''#command'' = Some (p0 @ strip p1)
           \<and> params ''#original'' = Some (strip line)"
proof -
  from assms drop_line_number_even[of line]
  obtain p0 p1 rest where "drop_line_number (line_parts line) = p0 # p1 # rest"
    by (cases "drop_line_number (line_parts line)" rule: list.exhaust; cases "tl (drop_line_number (line_parts line))") auto
  then show ?thesis by (simp add: parse_line_def Let_def)
qed


theorem command_key_whole_token_witness:
  "\<exists>params. parse_line ''G28'' = Inr (params, Some ''G28'') \<and> params ''#command'' = Some ''G28''"
proof -
  have "drop_line_number (line_parts ''G28'') = [''G'', ''28'']"
    by (simp add: parts_g28 drop_line_number_def)
  with command_key_whole_token[of "''G28''"] show ?thesis by (auto simp: str_defs)
qed

text \<open>
  The claim as it is written takes only the first character of the token: for the line
  \<open>G28\<close> that would be \<open>G2\<close>, and the code stores \<open>G28\<close>.
\<close>

theorem command_key_whole_token_counterexample:
  "drop_line_number (line_parts ''G28'') = [''G'', ''28'']
   \<and> fst (projr (parse_line ''G28'')) ''#command'' = Some ''G28''
   \<and> fst (projr (parse_line ''G28'')) ''#command'' \<noteq> Some (''G'' @ [hd ''28''])"
  by (simp add: parse_line_def parts_g28 drop_line_number_def str_defs)

lemma two_tool_state_eq:
  "two_tool_state = (init False)\<lparr>is_printer_ready := True, gcode_handlers := build_handlers True,
     toolhead := True,
     extruder := Some (0, \<lparr> e_heater = 0, e_activate_gcode = ''G90'',
                           e_deactivate_gcode = ''G91'' \<rparr>),
     trace := [Th_set_extruder 0], heaters := [Some 0, Some 2, Some 1], fan := True\<rparr>"
  by (simp add: two_tool_state_def two_tool_env_def set_printer_ready_def quiet_env_def init_def
      act_defs th_call_def call_def Let_def)

lemma parts_tool:
  "line_parts ''T1'' = [''T'', ''1'']" "line_parts ''G91'' = [''G'', ''91'']"
  "line_parts ''G90'' = [''G'', ''90'']" "line_parts ''M105'' = [''M'', ''105'']"
  by code_simp+

lemma handlers_tool:
  "map_of (build_handlers True) ''T1'' = None"
  "map_of (build_handlers True) ''G91'' = Some G91"
  "map_of (build_handlers True) ''G90'' = Some G90"
  "map_of (build_handlers True) ''M105'' = Some M105"
  by code_simp+

lemma tool_change_run:
  "\<exists>s'. process_commands two_tool_env 2 [''T1''] True two_tool_state = Some (Inr (), s')
        \<and> trace s' = [Th_set_extruder 0, Th_set_extruder 1, Th_get_position, Heater_get_temp 0,
                       Heater_get_temp 2, Heater_get_temp 1, Write (''ok'' @ [nl])]"
  by (simp add: numeral_2_eq_2 two_tool_state_eq parts_tool handlers_tool run_g1_defs
      two_tool_env_def cmd_default_def cmd_Tn_def get_int_def py_int_def split_sign_def
      is_digit_def nat_of_digits_def digit_val_def cmd_G90_def cmd_G91_def cmd_M105_def
      get_temp_def heater_get_temp_def)

text \<open>
  C10. Whenever \<open>process_commands\<close> returns, \<open>need_ack\<close> has the value it had when
  \<open>process_commands\<close> was entered, whatever the commands were and whatever value
  \<open>need_ack\<close> its caller asked for. So the nested runs of the tool-change macros, which
  ask for no acknowledgement, give the flag back to the outer batch as they found it.
\<close>

theorem process_commands_restores_need_ack:
  "process_commands ev fuel commands need_ack' s = Some (Inr u, s') \<Longrightarrow> need_ack s' = need_ack s"
  by (cases fuel)
     (auto simp: process_commands_body_def Let_def split: option.splits sum.splits prod.splits)

theorem process_commands_restores_need_ack_witness:
  "\<exists>s'. process_commands two_tool_env 2 [''T1''] True two_tool_state = Some (Inr (), s')
        \<and> need_ack s' = need_ack two_tool_state
        \<and> trace s' = [Th_set_extruder 0, Th_set_extruder 1, Th_get_position, Heater_get_temp 0,
                       Heater_get_temp 2, Heater_get_temp 1, Write (''ok'' @ [nl])]"
proof -
  from tool_change_run obtain s' where
    r: "process_commands two_tool_env 2 [''T1''] True two_tool_state = Some (Inr (), s')"
    and t: "trace s' = [Th_set_extruder 0, Th_set_extruder 1, Th_get_position, Heater_get_temp 0,
                        Heater_get_temp 2, Heater_get_temp 1, Write (''ok'' @ [nl])]"
    by blast
  from process_commands_restores_need_ack[OF r] have "need_ack s' = need_ack two_tool_state" .
  with r t show ?thesis by blast
qed

lemma parts_pid:
  "line_parts ''PID_TUNE E1 S200'' = [''PID_TUNE'', '' '', ''E'', ''1 '', ''S'', ''200'']"
  by code_simp

lemma handler_pid: "map_of (build_handlers True) ''PID_TUNE'' = Some PID_TUNE"
  by code_simp

lemma py_pid: "py_int ''1'' = Some 1" "py_float ''200'' = Some 200"
  by (simp_all add: py_int_def float_defs str_defs)

text \<open>
  C5. The claim says that a PID auto-tune command with an invalid heater index reports
  the error and does nothing more. On a ready printer with one extruder and a bed
  heater, \<open>heaters\<close> has length 2, so the index 1 of \<open>PID_TUNE E1 S200\<close> is invalid
  (\<open>heater_index >= len(self.heaters) - 1\<close>). The code reports
  \<open>Heater not configured\<close> and then goes on: it starts the auto-tune of \<open>heaters[1]\<close>,
  the bed heater, at 200 and enters the loop of \<open>bg_temp\<close>.
\<close>

theorem pid_tune_invalid_index_goes_on:
  "heaters ready_state = [Some 0, Some 1]
   \<and> trace (snd (the (process_commands quiet_env 1 [''PID_TUNE E1 S200''] True ready_state)))
     = [Th_set_extruder 0, Write (''!! Heater not configured'' @ [nl]),
        Heater_start_auto_tune 1 200, Reactor_monotonic, Heater_check_busy 1 0,
        Write (''ok'' @ [nl])]"
  by (simp add: ready_state_eq parts_pid handler_pid py_pid run_g1_defs cmd_PID_TUNE_def
      pid_tune_start_def get_int_def get_float_def py_index_def bg_temp_def bg_cond_def)

section \<open>Properties of the input framer\<close>

lemma wait_loop_trace:
  "wait_loop ev fuel t s = Some s2 \<Longrightarrow>
     \<exists>ps. trace s2 = trace s @ ps \<and> (\<forall>e \<in> set ps. \<exists>x. e = Reactor_pause x)"
proof (induction fuel arbitrary: t s)
  case 0
  then show ?case by (auto split: if_splits)
next
  case (Suc fuel)
  show ?case
  proof (cases "is_processing_data s")
    case False
    with Suc.prems show ?thesis by auto
  next
    case True
    let ?s1 = "s\<lparr>trace := trace s @ [Reactor_pause (t + 1 / 10)]\<rparr>"
    let ?s' = "?s1\<lparr>is_processing_data := \<not> env_batch_done ev (trace ?s1)\<rparr>"
    from True Suc.prems have "wait_loop ev fuel (env_pause ev (trace ?s1)) ?s' = Some s2"
      by (simp add: Let_def)
    from Suc.IH[OF this] obtain ps where "trace s2 = trace ?s' @ ps" "\<forall>e \<in> set ps. \<exists>x. e = Reactor_pause x"
      by blast
    then have "trace s2 = trace s @ (Reactor_pause (t + 1 / 10) # ps)"
      "\<forall>e \<in> set (Reactor_pause (t + 1 / 10) # ps). \<exists>x. e = Reactor_pause x" by auto
    then show ?thesis by blast
  qed
qed

text \<open>
  C1. In interactive mode, when a batch of complete lines is read while an earlier
  batch is being processed and its first line is \<open>M112\<close> once stripped and put in upper
  case, \<open>process_data\<close> calls the toolhead's \<open>force_shutdown\<close> right after
  unregistering the descriptor: the trace before the waiting loop ends with these two
  calls, every pause of the waiting loop comes after them, and only then is the batch
  run.
\<close>

theorem emergency_stop_before_wait:
  assumes "\<not> is_fileinput s" and "is_processing_data s" and "toolhead s"
    and "frame_input data s = (l # rest, s0)" and "upper (strip l) = ''M112''"
  shows "trace (snd (before_wait ev (l # rest) s0))
           = trace s @ [Reactor_unregister_fd, Th_force_shutdown]
       \<and> (\<forall>fuel t s2. wait_loop ev fuel t (snd (before_wait ev (l # rest) s0)) = Some s2 \<longrightarrow>
            (\<exists>ps. trace s2 = trace s @ [Reactor_unregister_fd, Th_force_shutdown] @ ps
                  \<and> (\<forall>e \<in> set ps. \<exists>x. e = Reactor_pause x)))
       \<and> (\<forall>fuel t. process_data ev fuel t data s =
            (case before_wait ev (l # rest) s0 of
               (Inl e, s1) \<Rightarrow> Some (Inl e, s1)
             | (Inr _, s1) \<Rightarrow>
                 (case wait_loop ev fuel t s1 of
                    None \<Rightarrow> None
                  | Some s2 \<Rightarrow>
                      run_batch ev fuel data (l # rest)
                        (s2\<lparr>trace := trace s2 @ [Reactor_register_fd], fd_handle := True\<rparr>))))"
proof -
  from assms(4) have s0: "is_fileinput s0 = is_fileinput s" "toolhead s0 = toolhead s"
    "trace s0 = trace s" "is_processing_data s0 = is_processing_data s"
    by (auto simp: frame_input_def Let_def split: list.splits)
  with assms have 1: "trace (snd (before_wait ev (l # rest) s0))
      = trace s @ [Reactor_unregister_fd, Th_force_shutdown]"
    by (simp add: before_wait_def act_defs cmd_M112_def th_call_def call_def Let_def
        split: option.splits)
  from s0 assms have 2: "fst (before_wait ev (l # rest) s0) \<noteq> Inr False"
    by (simp add: before_wait_def act_defs cmd_M112_def th_call_def call_def Let_def
        split: option.splits)
  show ?thesis
  proof (intro conjI allI impI)
    show "trace (snd (before_wait ev (l # rest) s0))
            = trace s @ [Reactor_unregister_fd, Th_force_shutdown]" by (rule 1)
  next
    fix fuel t s2
    assume "wait_loop ev fuel t (snd (before_wait ev (l # rest) s0)) = Some s2"
    from wait_loop_trace[OF this] 1
    show "\<exists>ps. trace s2 = trace s @ [Reactor_unregister_fd, Th_force_shutdown] @ ps
                \<and> (\<forall>e \<in> set ps. \<exists>x. e = Reactor_pause x)" by auto
  next
    fix fuel t
    show "process_data ev fuel t data s =
            (case before_wait ev (l # rest) s0 of
               (Inl e, s1) \<Rightarrow> Some (Inl e, s1)
             | (Inr _, s1) \<Rightarrow>
                 (case wait_loop ev fuel t s1 of
                    None \<Rightarrow> None
                  | Some s2 \<Rightarrow>
                      run_batch ev fuel data (l # rest)
                        (s2\<lparr>trace := trace s2 @ [Reactor_register_fd], fd_handle := True\<rparr>)))"
      using assms(2,4) s0(4) 2
      by (auto simp: process_data_def split: prod.splits sum.splits)
  qed
qed

theorem emergency_stop_before_wait_witness:
  "trace (snd (before_wait quiet_env [''M112'']
                 (ready_state\<lparr>is_processing_data := True, bytes_read := 5\<rparr>)))
     = trace (ready_state\<lparr>is_processing_data := True\<rparr>)
       @ [Reactor_unregister_fd, Th_force_shutdown]"
proof -
  let ?s = "ready_state\<lparr>is_processing_data := True\<rparr>"
  have 1: "\<not> is_fileinput ?s" "is_processing_data ?s" "toolhead ?s"
    by (simp_all add: ready_state_eq init_def)
  have 2: "frame_input (''M112'' @ [nl]) ?s = ([''M112''], ?s\<lparr>bytes_read := 5\<rparr>)"
    by (simp add: frame_input_def ready_state_eq init_def nl_def)
  have 3: "upper (strip ''M112'') = ''M112''"
    by (simp add: upper_def upper_char_def str_defs)
  from emergency_stop_before_wait[OF 1 2 3, of quiet_env] show ?thesis by simp
qed


section \<open>Properties of the extended decoder and the response channel\<close>

lemma eparams_of_eq:
  "eparams_of m toks =
     (if \<forall>tok \<in> set toks. CHR ''='' \<in> set tok then Some (m ++ map_of (rev (eq_pairs toks)))
      else None)"
proof (induction toks arbitrary: m)
  case Nil
  then show ?case by (simp add: eq_pairs_def)
next
  case (Cons tok toks)
  show ?case
  proof (cases "CHR ''='' \<in> set tok")
    case False
    then show ?thesis by (simp add: split_eq_def)
  next
    case True
    let ?k = "upper (takeWhile (\<lambda>c. c \<noteq> CHR ''='') tok)"
    let ?v = "tl (dropWhile (\<lambda>c. c \<noteq> CHR ''='') tok)"
    have e: "(m(?k \<mapsto> ?v)) ++ map_of (rev (eq_pairs toks))
            = m ++ map_of (rev (eq_pairs (tok # toks)))"
      by (auto simp: eq_pairs_def fun_eq_iff map_add_def split: option.splits)
    have step: "eparams_of m (tok # toks) = eparams_of (m(?k \<mapsto> ?v)) toks"
      using True by (simp add: split_eq_def)
    have all: "(\<forall>t \<in> set (tok # toks). CHR ''='' \<in> set t) = (\<forall>t \<in> set toks. CHR ''='' \<in> set t)"
      using True by simp
    show ?thesis
      by (simp only: step Cons.IH e all)
  qed
qed

lemma extended_samples:
  "extended_match ''SET_SERVO SERVO=a width=1.5 ; up''
     = Some (''SET_SERVO'', ''SERVO=a width=1.5'')"
  "extended_match ''SET_SERVO SERVO'' = Some (''SET_SERVO'', ''SERVO'')"
  "split_ws ''SERVO=a width=1.5'' = [''SERVO=a'', ''width=1.5'']"
  "split_ws ''SERVO'' = [''SERVO'']"
  "eq_pairs [''SERVO=a'', ''width=1.5''] = [(''SERVO'', ''a''), (''WIDTH'', ''1.5'')]"
  by code_simp+

text \<open>
  C7. For parameters whose original line matches the extended pattern,
  \<open>get_extended_params\<close> raises the malformed-command error exactly when one of the
  whitespace-separated tokens of the arguments has no \<open>=\<close>; when every token has
  one, it returns the map from the keys in upper case to the values (the last token
  winning for a repeated key), overlaid with the pseudo-fields, the entries of the
  original map whose key starts with \<open>#\<close>.
\<close>

theorem extended_params_decoded:
  assumes "params ''#original'' = Some line" and "extended_match line = Some (cmd, eargs)"
  shows "((get_extended_params params
            = Inl (Gcode_error (''Malformed command '' @ quote @ line @ quote)))
          = (\<exists>tok \<in> set (split_ws eargs). CHR ''='' \<notin> set tok))
       \<and> ((\<forall>tok \<in> set (split_ws eargs). CHR ''='' \<in> set tok) \<longrightarrow>
            get_extended_params params
              = Inr (\<lambda>k. if is_pseudo k \<and> params k \<noteq> None then params k
                         else map_of (rev (eq_pairs (split_ws eargs))) k))"
  using assms by (auto simp: get_extended_params_def eparams_of_eq)


theorem extended_params_decoded_witness:
  "(\<exists>m. get_extended_params [''#original'' \<mapsto> ''SET_SERVO SERVO=a width=1.5 ; up''] = Inr m
        \<and> m ''SERVO'' = Some ''a'' \<and> m ''WIDTH'' = Some ''1.5''
        \<and> m ''#original'' = Some ''SET_SERVO SERVO=a width=1.5 ; up'')
   \<and> get_extended_params [''#original'' \<mapsto> ''SET_SERVO SERVO'']
       = Inl (Gcode_error (''Malformed command '' @ quote @ ''SET_SERVO SERVO'' @ quote))"
proof -
  let ?p = "[''#original'' \<mapsto> ''SET_SERVO SERVO=a width=1.5 ; up'']"
  let ?q = "[''#original'' \<mapsto> ''SET_SERVO SERVO'']"
  have "get_extended_params ?p
          = Inr (\<lambda>k. if is_pseudo k \<and> ?p k \<noteq> None then ?p k
                     else map_of (rev (eq_pairs (split_ws ''SERVO=a width=1.5''))) k)"
    using extended_params_decoded
      [of ?p "''SET_SERVO SERVO=a width=1.5 ; up''" "''SET_SERVO''" "''SERVO=a width=1.5''"]
    by (simp add: extended_samples)
  then have 1: "\<exists>m. get_extended_params ?p = Inr m
        \<and> m ''SERVO'' = Some ''a'' \<and> m ''WIDTH'' = Some ''1.5''
        \<and> m ''#original'' = Some ''SET_SERVO SERVO=a width=1.5 ; up''"
    by (simp add: extended_samples is_pseudo_def)
  have 2: "get_extended_params ?q
       = Inl (Gcode_error (''Malformed command '' @ quote @ ''SET_SERVO SERVO'' @ quote))"
    using extended_params_decoded[of ?q "''SET_SERVO SERVO''" "''SET_SERVO''" "''SERVO''"]
    by (simp add: extended_samples)
  from 1 2 show ?thesis by blast
qed

lemma split_on_nonempty: "split_on c s \<noteq> []"
  by (induction s) (auto split: list.splits)

lemma split_on_no_sep: "l \<in> set (split_on c s) \<Longrightarrow> c \<notin> set l"
proof (induction s arbitrary: l)
  case Nil
  then show ?case by simp
next
  case (Cons x xs)
  show ?case
  proof (cases "x = c")
    case True
    with Cons show ?thesis by auto
  next
    case False
    obtain w ws where w: "split_on c xs = w # ws"
      using split_on_nonempty[of c xs] by (cases "split_on c xs") auto
    with False Cons.prems have "l = x # w \<or> l \<in> set ws" by simp
    moreover have "c \<notin> set w" "\<And>l. l \<in> set ws \<Longrightarrow> c \<notin> set l"
      using Cons.IH w by simp_all
    ultimately show ?thesis using False by auto
  qed
qed

lemma split_on_single: "c \<notin> set x \<Longrightarrow> split_on c x = [x]"
  by (induction x) auto

lemma split_on_append: "c \<notin> set x \<Longrightarrow> split_on c (x @ c # r) = x # split_on c r"
  by (induction x) auto

lemma split_on_join:
  "xs \<noteq> [] \<Longrightarrow> \<forall>x \<in> set xs. c \<notin> set x \<Longrightarrow> split_on c (join [c] xs) = xs"
proof (induction "[c]" xs rule: join.induct)
  case 1
  then show ?case by simp
next
  case (2 x)
  then show ?case by (simp add: split_on_single)
next
  case (3 x y ys)
  then show ?case by (simp add: split_on_append)
qed

lemma join_snoc: "join sep (xs @ [y]) = (if xs = [] then y else join sep xs @ sep @ y)"
  by (induction sep xs rule: join.induct) auto

lemma rstrip_append: "nonblank t \<Longrightarrow> rstrip (s @ t) = s @ rstrip t"
proof -
  assume "nonblank t"
  then obtain c where "c \<in> set (rev t)" "\<not> is_space c" by (auto simp: nonblank_def)
  then have "dropWhile is_space (rev t @ rev s) = dropWhile is_space (rev t) @ rev s"
    by (rule dropWhile_append1)
  then show ?thesis by (simp add: rstrip_def)
qed

lemma rstrip_cons: "\<not> is_space h \<Longrightarrow> rstrip (h # t) = h # rstrip t"
proof -
  assume h: "\<not> is_space h"
  have "dropWhile is_space (rev t @ [h]) = dropWhile is_space (rev t) @ [h]"
  proof (cases "\<forall>x \<in> set (rev t). is_space x")
    case True
    then have "dropWhile is_space (rev t) = []" by simp
    moreover from True have "dropWhile is_space (rev t @ [h]) = dropWhile is_space [h]"
      by (intro dropWhile_append2) auto
    ultimately show ?thesis using h by simp
  next
    case False
    then obtain c where "c \<in> set (rev t)" "\<not> is_space c" by auto
    then show ?thesis by (rule dropWhile_append1)
  qed
  then show ?thesis by (simp add: rstrip_def)
qed

lemma rstrip_idem: "rstrip (rstrip z) = rstrip z"
  by (simp add: rstrip_def)

lemma set_rstrip: "set (rstrip y) \<subseteq> set y"
  using set_dropWhileD[of _ is_space "rev y"] by (auto simp: rstrip_def)

lemma lstrip_rstrip: "lstrip (rstrip y) = rstrip (lstrip y)"
proof (cases "dropWhile is_space y")
  case Nil
  then have all: "\<forall>x \<in> set y. is_space x" by (simp add: dropWhile_eq_Nil_conv)
  then have "dropWhile is_space (rev y) = []" by (simp add: dropWhile_eq_Nil_conv)
  then have "rstrip y = []" by (simp only: rstrip_def rev.simps)
  then have 1: "lstrip (rstrip y) = []" by (simp add: lstrip_def)
  from Nil have "lstrip y = []" by (simp only: lstrip_def)
  then have "rstrip (lstrip y) = []" by (simp add: rstrip_def)
  with 1 show ?thesis by simp
next
  case (Cons h t')
  then have h: "\<not> is_space h" using hd_dropWhile[of is_space y] by auto
  have y: "y = takeWhile is_space y @ (h # t')" using Cons takeWhile_dropWhile_id[of is_space y] by simp
  have nb: "nonblank (h # t')" using h by (auto simp: nonblank_def)
  have "rstrip y = takeWhile is_space y @ rstrip (h # t')"
    using rstrip_append[OF nb, of "takeWhile is_space y"] y by simp
  also have "\<dots> = takeWhile is_space y @ h # rstrip t'" by (simp add: rstrip_cons[OF h])
  finally have "lstrip (rstrip y) = dropWhile is_space (takeWhile is_space y @ h # rstrip t')"
    by (simp add: lstrip_def)
  also have "\<dots> = dropWhile is_space (h # rstrip t')"
    by (intro dropWhile_append2) (auto dest: set_takeWhileD)
  also have "\<dots> = h # rstrip t'" using h by simp
  also have "\<dots> = rstrip (lstrip y)" using Cons by (simp add: lstrip_def rstrip_cons[OF h])
  finally show ?thesis .
qed

lemma strip_rstrip: "strip (rstrip y) = strip y"
  by (simp add: strip_def lstrip_rstrip rstrip_idem)

lemma strip_nonblank: "strip x \<noteq> [] \<Longrightarrow> nonblank x"
proof (rule ccontr)
  assume a: "strip x \<noteq> []" and "\<not> nonblank x"
  then have "\<forall>c \<in> set x. is_space c" by (simp add: nonblank_def)
  then have "dropWhile is_space x = []" by (simp add: dropWhile_eq_Nil_conv)
  then have "lstrip x = []" by (simp only: lstrip_def)
  then have "strip x = []" by (simp add: strip_def rstrip_def)
  with a show False by simp
qed

lemma strip_head: "strip m \<noteq> [] \<Longrightarrow> \<exists>h t. strip m = h # t \<and> \<not> is_space h"
proof -
  assume a: "strip m \<noteq> []"
  then have "lstrip m \<noteq> []" by (auto simp: strip_def rstrip_def)
  then obtain h t where ht: "dropWhile is_space m = h # t" by (cases "dropWhile is_space m") (auto simp: lstrip_def)
  then have h: "\<not> is_space h" using hd_dropWhile[of is_space m] by auto
  have "strip m = h # rstrip t" using ht by (simp add: strip_def lstrip_def rstrip_cons[OF h])
  with h show ?thesis by blast
qed

lemma hd_split_on: "split_on c (h # t) = w # ws \<Longrightarrow> h \<noteq> c \<Longrightarrow> \<exists>w'. w = h # w'"
  by (auto split: list.splits)


lemma join_hd: "join sep ((h # w) # rest) = h # join sep (w # rest)"
  by (cases rest) auto

lemma is_space_nl: "is_space nl"
  by (simp add: is_space_def nl_def)

lemma info_lines:
  assumes ls: "split_on nl (strip msg) = ls" and n: "2 \<le> length ls"
    and nb: "strip (last (butlast ls)) \<noteq> []"
  shows "map strip (split_on nl (strip (join [nl] (butlast ls)))) = map strip (butlast ls)"
proof -
  have "strip msg \<noteq> []" using ls n by auto
  then obtain h t where m: "strip msg = h # t" and h: "\<not> is_space h"
    using strip_head by blast
  from h have hnl: "h \<noteq> nl" using is_space_nl by auto
  from n obtain w ws where lws: "ls = w # ws" and ws: "ws \<noteq> []"
    by (cases ls) fastforce+
  from ls m lws hnl obtain w' where w: "w = h # w'"
    using hd_split_on[of nl h t w ws] by auto
  define k where "k = last (butlast ls)"
  define L0 where "L0 = butlast (butlast ls)"
  have bne: "butlast ls \<noteq> []" using lws ws by simp
  then have bl: "butlast ls = L0 @ [k]" by (simp add: k_def L0_def)
  have kb: "nonblank k" using nb strip_nonblank by (simp add: k_def)
  have "butlast ls = w # butlast ws" using lws ws by simp
  then have "join [nl] (butlast ls) = h # join [nl] (w' # butlast ws)"
    by (simp add: w join_hd)
  then have "lstrip (join [nl] (butlast ls)) = join [nl] (butlast ls)"
    using h by (simp add: lstrip_def)
  then have 1: "strip (join [nl] (butlast ls)) = rstrip (join [nl] (butlast ls))"
    by (simp add: strip_def)
  have 2: "rstrip (join [nl] (L0 @ [k])) = join [nl] (L0 @ [rstrip k])"
  proof (cases "L0 = []")
    case True
    then show ?thesis by simp
  next
    case False
    have "rstrip ((join [nl] L0 @ [nl]) @ k) = (join [nl] L0 @ [nl]) @ rstrip k"
      by (rule rstrip_append[OF kb])
    with False show ?thesis by (simp add: join_snoc)
  qed
  have inls: "\<And>x. x \<in> set (butlast ls) \<Longrightarrow> nl \<notin> set x"
    using split_on_no_sep[of _ nl "strip msg"] ls by (auto dest: in_set_butlastD)
  have "nl \<notin> set k" using inls bl by simp
  then have "nl \<notin> set (rstrip k)" using set_rstrip by blast
  moreover have "\<And>x. x \<in> set L0 \<Longrightarrow> nl \<notin> set x" using inls bl by simp
  ultimately have "\<forall>x \<in> set (L0 @ [rstrip k]). nl \<notin> set x" by auto
  then have "split_on nl (join [nl] (L0 @ [rstrip k])) = L0 @ [rstrip k]"
    by (intro split_on_join) simp_all
  with 1 2 bl have "split_on nl (strip (join [nl] (butlast ls))) = L0 @ [rstrip k]" by simp
  then show ?thesis by (simp add: bl strip_rstrip)
qed

text \<open>
  C8, as the code has it. In interactive mode, for an error message whose stripped text
  has \<open>n \<ge> 2\<close> lines and whose line before the last is not blank, \<open>respond_error\<close>
  writes twice: first one informational block with the first \<open>n - 1\<close> lines, each
  stripped and prefixed with \<open>// \<close>, then the stripped last line prefixed with
  \<open>!! \<close>.
\<close>

theorem respond_error_two_writes:
  assumes "\<not> is_fileinput s" and "split_on nl (strip msg) = ls" and "2 \<le> length ls"
    and "strip (last (butlast ls)) \<noteq> []"
  shows "respond_error ev msg s
           = (Inr (), s\<lparr>trace := trace s
                 @ [Write (''// '' @ join ([nl] @ ''// '') (map strip (butlast ls)) @ [nl]),
                    Write (''!! '' @ strip (last ls) @ [nl])]\<rparr>)"
  using assms info_lines[OF assms(2-4)]
  by (simp add: respond_error_def respond_info_def respond_def act_defs Let_def)

theorem respond_error_two_writes_witness:
  "respond_error quiet_env (''a'' @ [nl] @ ''b'') (init False)
     = (Inr (), (init False)\<lparr>trace := [Write (''// a'' @ [nl]), Write (''!! b'' @ [nl])]\<rparr>)"
proof -
  have 1: "\<not> is_fileinput (init False)" by (simp add: init_def)
  have 2: "split_on nl (strip (''a'' @ [nl] @ ''b'')) = [''a'', ''b'']"
    by (simp add: str_defs nl_def)
  have 3: "2 \<le> length [''a'', ''b'']" by simp
  have 4: "strip (last (butlast [''a'', ''b''])) \<noteq> []" by (simp add: str_defs)
  from respond_error_two_writes[OF 1 2 3 4, of quiet_env] show ?thesis
    by (simp add: str_defs init_def)
qed

text \<open>
  The claim as it is written fails twice. In replay mode nothing is written at all. In
  interactive mode the message \<open>a\<close>, empty line, \<open>b\<close> has three lines, and its
  informational block holds one line, not the first two: \<open>respond_info\<close> strips the
  text it is given, which drops a blank line before the last line.
\<close>

theorem respond_error_two_writes_counterexample:
  "trace (snd (respond_error quiet_env (''a'' @ [nl] @ ''b'') (init True))) = []
   \<and> split_on nl (strip (''a'' @ [nl, nl] @ ''b'')) = [''a'', [], ''b'']
   \<and> trace (snd (respond_error quiet_env (''a'' @ [nl, nl] @ ''b'') (init False)))
       = [Write (''// a'' @ [nl]), Write (''!! b'' @ [nl])]"
  by (simp add: respond_error_def respond_info_def respond_def act_defs Let_def str_defs nl_def init_def)


end
